theory Spec2Isabelle
  imports Complex_Main "HOL-Library.Log_Nat"
begin

section \<open>Data models\<close>

text \<open>
  The pydantic models of \<open>main.py\<close>, one record each. A Python \<open>int\<close> is an
  \<open>int\<close>, a \<open>str\<close> is a \<open>string\<close>, and a Python \<open>float\<close> is the real number
  it denotes (every finite binary64 value is a rational; the infinities and NaN, which
  nothing in this program produces, have no counterpart). Record fields are global names
  in HOL, so a field name that several models share carries a prefix:
  \<open>RawMotorData.id/velocity/temperature\<close> are \<open>raw_id/raw_velocity/raw_temperature\<close>,
  \<open>ProcessedMotor.id\<close> is \<open>motor_id\<close>, \<open>ProcessedPallet.id\<close> is \<open>pallet_id\<close>,
  \<open>Centroid.x/y/z\<close> are \<open>c_x/c_y/c_z\<close>, and the three fields of \<open>RawHardwareData\<close>
  are \<open>raw_motors/raw_pallet/raw_centroid\<close>.
\<close>

record RawMotorData =
  raw_id :: int
  raw_velocity :: real
  cm :: real
  raw_temperature :: real

record RawPalletData =
  id_pallet :: int
  timestamp_raw :: string

record RawCentroidData =
  centroid_x :: real
  centroid_y :: real
  centroid_z :: real

record RawHardwareData =
  raw_motors :: "RawMotorData list"
  raw_pallet :: RawPalletData
  raw_centroid :: RawCentroidData

record ProcessedMotor =
  motor_id :: int
  velocity :: real
  distance :: real
  temperature :: real

record ProcessedPallet =
  pallet_id :: int
  timestamp :: string

record Centroid =
  c_x :: real
  c_y :: real
  c_z :: real

record Giroscopio =
  centroid :: Centroid

record ProcessedRobotData =
  motors :: "ProcessedMotor list"
  pallets :: "ProcessedPallet list"
  giroscopio :: Giroscopio

record HistoricalRecord =
  timestamp_coleta :: string
  data :: ProcessedRobotData


section \<open>The environment\<close>

text \<open>
  Everything outside the program is one record that the functions take and return: the
  files on disk, the lines printed, the random generator, the clock, and whether a file
  operation succeeds. Nothing of it is chosen by the model: a theorem about every
  \<open>World\<close> is a theorem about every behaviour of the machine.
\<close>

text \<open>Exceptions. \<open>CancelledError\<close> derives from \<open>BaseException\<close>, the others from
  \<open>Exception\<close>; \<open>is_Exception e\<close> is \<open>isinstance(e, Exception)\<close>, what an
  \<open>except Exception\<close> clause tests.\<close>

datatype exn = OSError | JSONDecodeError | ValidationError | TypeError | CancelledError

fun is_Exception :: "exn \<Rightarrow> bool" where
  "is_Exception CancelledError = False"
| "is_Exception _ = True"

datatype 'a result = Return 'a | Raise exn

text \<open>A file is known by what reading it yields: a snapshot, a history, or nothing that
  \<open>json.load\<close> and the pydantic constructors accept.\<close>

datatype document =
    Garbage
  | Snapshot_doc ProcessedRobotData
  | History_doc "HistoricalRecord list"

text \<open>How the next \<open>with open(path, "w")\<close> block ends: it completes; \<open>open\<close> raises and
  the file is as before; or \<open>json.dump\<close> raises after \<open>open\<close> truncated the file.\<close>

datatype write_outcome = Write_ok | Open_fails | Dump_fails

text \<open>The lines the program prints, by their format string.\<close>

datatype log_msg =
    Info_current_loaded string
  | Aviso_current_load exn
  | Info_hist_loaded nat
  | Aviso_hist_load exn
  | Info_current_saved string
  | Erro_current_save exn
  | Info_hist_saved nat string
  | Erro_hist_save exn
  | Info_updated string
  | Info_loop_start
  | Erro_loop exn
  | Info_loop_stopped

record World =
  fs :: "string \<rightharpoonup> document"
  console :: "log_msg list"
  rng :: "nat \<Rightarrow> nat"
  clock :: "nat \<Rightarrow> string"
  write_faults :: "nat \<Rightarrow> write_outcome"
  mkdir_ok :: bool
  stat_fails :: "string \<Rightarrow> bool"

text \<open>\<open>rng\<close>, \<open>clock\<close> and \<open>write_faults\<close> are tapes: entry \<open>0\<close> is what the next call
  of the library gets, and the call moves the tape on by one. \<open>mkdir_ok\<close> tells whether
  the data directory can be made (or is there already); \<open>stat_fails p\<close> tells that the
  file system refuses to say whether \<open>p\<close> is there, as it does when the directory of
  \<open>p\<close> may not be searched.\<close>

definition print :: "log_msg \<Rightarrow> World \<Rightarrow> World" where
  "print m w = w\<lparr>console := console w @ [m]\<rparr>"

definition take_entropy :: "World \<Rightarrow> nat \<times> World" where
  "take_entropy w = (rng w 0, w\<lparr>rng := \<lambda>i. rng w (Suc i)\<rparr>)"

text \<open>\<open>datetime.now(...)\<close> together with the formatting applied to it
  (\<open>isoformat()\<close>, \<open>strftime\<close>): a clock reading is the string it is rendered as.\<close>

definition datetime_now :: "World \<Rightarrow> string \<times> World" where
  "datetime_now w = (clock w 0, w\<lparr>clock := \<lambda>i. clock w (Suc i)\<rparr>)"

definition write_file :: "string \<Rightarrow> document \<Rightarrow> World \<Rightarrow> unit result \<times> World" where
  "write_file path doc w =
     (let w' = w\<lparr>write_faults := \<lambda>i. write_faults w (Suc i)\<rparr>
      in case write_faults w 0 of
           Write_ok \<Rightarrow> (Return (), w'\<lparr>fs := (fs w)(path \<mapsto> doc)\<rparr>)
         | Open_fails \<Rightarrow> (Raise OSError, w')
         | Dump_fails \<Rightarrow> (Raise OSError, w'\<lparr>fs := (fs w)(path \<mapsto> Garbage)\<rparr>))"

text \<open>\<open>ProcessedRobotData(**json.load(f))\<close> and
  \<open>[HistoricalRecord(**record) for record in json.load(f)]\<close>.\<close>

fun decode_snapshot :: "document \<Rightarrow> exn + ProcessedRobotData" where
  "decode_snapshot (Snapshot_doc d) = Inr d"
| "decode_snapshot Garbage = Inl JSONDecodeError"
| "decode_snapshot (History_doc h) = Inl TypeError"

fun decode_history :: "document \<Rightarrow> exn + HistoricalRecord list" where
  "decode_history (History_doc h) = Inr h"
| "decode_history Garbage = Inl JSONDecodeError"
| "decode_history (Snapshot_doc d) = Inl TypeError"

text \<open>\<open>Path.exists()\<close>: \<open>pathlib\<close> answers \<open>False\<close> when the file is not there and
  lets every other error of \<open>stat\<close> through (\<open>PermissionError\<close>, an \<open>OSError\<close>).\<close>

definition path_exists :: "string \<Rightarrow> World \<Rightarrow> bool result" where
  "path_exists p w =
     (if stat_fails w p then Raise OSError
      else Return (case fs w p of None \<Rightarrow> False | Some _ \<Rightarrow> True))"

text \<open>The bodies of the two \<open>with open(path, "r")\<close> blocks up to the assignment:
  \<open>open\<close> raises when the file is not there, the decoding raises on what it cannot
  read.\<close>

definition read_snapshot :: "string \<Rightarrow> World \<Rightarrow> exn + ProcessedRobotData" where
  "read_snapshot p w = (case fs w p of None \<Rightarrow> Inl OSError | Some doc \<Rightarrow> decode_snapshot doc)"

definition read_history :: "string \<Rightarrow> World \<Rightarrow> exn + HistoricalRecord list" where
  "read_history p w = (case fs w p of None \<Rightarrow> Inl OSError | Some doc \<Rightarrow> decode_history doc)"

section \<open>Floating point\<close>

text \<open>
  A finite binary64 value is the real number it denotes, and an operation on floats is
  the operation on reals followed by \<open>fl\<close>, rounding to the nearest binary64 value with
  ties to the even significand (IEEE 754, the mode CPython runs in). \<open>ilog2 x\<close> is
  \<open>\<lfloor>log\<^sub>2 x\<rfloor>\<close> for \<open>0 < x\<close>; \<open>ulp_exp x\<close> is the exponent of the unit in the last
  place at \<open>x\<close>, \<open>- 1074\<close> in the subnormal range. Overflow to infinity is left out: no
  value of this program exceeds \<open>160\<close>.
\<close>

definition round_half_even :: "real \<Rightarrow> int" where
  "round_half_even x =
     (let f = \<lfloor>x\<rfloor>; d = x - of_int f
      in if d < 1 / 2 then f
         else if 1 / 2 < d then f + 1
         else if even f then f else f + 1)"

definition ilog2 :: "real \<Rightarrow> int" where
  "ilog2 x = (if 1 \<le> x then bitlen \<lfloor>x\<rfloor> - 1 else - bitlen (\<lceil>1 / x\<rceil> - 1))"

definition ulp_exp :: "real \<Rightarrow> int" where
  "ulp_exp x = max (ilog2 \<bar>x\<bar> - 52) (- 1074)"

definition fl :: "real \<Rightarrow> real" where
  "fl x = (if x = 0 then 0
           else of_int (round_half_even (x / 2 powi ulp_exp x)) * 2 powi ulp_exp x)"

definition fadd :: "real \<Rightarrow> real \<Rightarrow> real" where
  "fadd x y = fl (x + y)"

definition fsub :: "real \<Rightarrow> real \<Rightarrow> real" where
  "fsub x y = fl (x - y)"

definition fmul :: "real \<Rightarrow> real \<Rightarrow> real" where
  "fmul x y = fl (x * y)"

text \<open>
  \<open>round(x, ndigits)\<close> on a float, for the small \<open>ndigits\<close> of this program (\<open>1\<close> and
  \<open>2\<close>): CPython rounds the exact value of \<open>x\<close> to \<open>ndigits\<close> decimals, ties to even,
  and returns the binary64 value nearest to that decimal.
\<close>

definition py_round :: "real \<Rightarrow> nat \<Rightarrow> real" where
  "py_round x ndigits = fl (of_int (round_half_even (x * 10 ^ ndigits)) / 10 ^ ndigits)"

section \<open>The random module\<close>

text \<open>
  \<open>random.random()\<close> is a 53-bit integer over \<open>2\<^sup>5\<^sup>3\<close>; \<open>random.uniform(a, b)\<close> is
  \<open>a + (b - a) * random()\<close> in float arithmetic; \<open>random.randint(a, b)\<close> is \<open>a\<close> plus a
  number below \<open>b - a + 1\<close>. Each takes one entry of the tape, which stands for the
  bits the generator gives: \<open>random_random\<close> keeps \<open>53\<close> of them, \<open>random_randint\<close>
  reduces them to a number below the width, so that every value of the range can
  come out and no other.
\<close>

definition random_random :: "World \<Rightarrow> real \<times> World" where
  "random_random w =
     (let (k, w') = take_entropy w in (real (k mod 2 ^ 53) / 2 ^ 53, w'))"

definition random_uniform :: "real \<Rightarrow> real \<Rightarrow> World \<Rightarrow> real \<times> World" where
  "random_uniform a b w =
     (let (r, w') = random_random w in (fadd a (fmul (fsub b a) r), w'))"

definition random_randint :: "int \<Rightarrow> int \<Rightarrow> World \<Rightarrow> int \<times> World" where
  "random_randint a b w =
     (let (k, w') = take_entropy w in (a + int k mod (b - a + 1), w'))"

section \<open>DataSimulator\<close>

definition generate_motor_data :: "int \<Rightarrow> World \<Rightarrow> RawMotorData \<times> World" where
  "generate_motor_data motor_id' w =
     (let (v, w1) = random_uniform 130 160 w;
          (c, w2) = random_uniform 10 30 w1;
          (t, w3) = random_uniform 65 80 w2
      in (\<lparr>raw_id = motor_id',
           raw_velocity = py_round v 1,
           cm = py_round c 1,
           raw_temperature = py_round t 1\<rparr>, w3))"

definition generate_pallet_data :: "World \<Rightarrow> RawPalletData \<times> World" where
  "generate_pallet_data w =
     (let (n, w1) = random_randint 1 100 w;
          (now, w2) = datetime_now w1
      in (\<lparr>id_pallet = n, timestamp_raw = now\<rparr>, w2))"

definition generate_centroid_data :: "World \<Rightarrow> RawCentroidData \<times> World" where
  "generate_centroid_data w =
     (let (x, w1) = random_uniform (- 1) 1 w;
          (y, w2) = random_uniform (- 1) 1 w1;
          (z, w3) = random_uniform (- 1) 1 w2
      in (\<lparr>centroid_x = py_round x 2,
           centroid_y = py_round y 2,
           centroid_z = py_round z 2\<rparr>, w3))"

text \<open>The list comprehension \<open>[f(i) for i in xs]\<close> of a function with effects.\<close>

fun comprehension :: "('a \<Rightarrow> World \<Rightarrow> 'b \<times> World) \<Rightarrow> 'a list \<Rightarrow> World \<Rightarrow> 'b list \<times> World" where
  "comprehension f [] w = ([], w)"
| "comprehension f (i # is) w =
     (let (y, w1) = f i w; (ys, w2) = comprehension f is w1 in (y # ys, w2))"

definition simulate_hardware_data :: "World \<Rightarrow> RawHardwareData \<times> World" where
  "simulate_hardware_data w =
     (let (motors', w1) = comprehension generate_motor_data [1..3] w;
          (pallet, w2) = generate_pallet_data w1;
          (centroid', w3) = generate_centroid_data w2
      in (\<lparr>raw_motors = motors', raw_pallet = pallet, raw_centroid = centroid'\<rparr>, w3))"

section \<open>DataProcessor\<close>

definition process_motor :: "RawMotorData \<Rightarrow> ProcessedMotor" where
  "process_motor raw_motor =
     \<lparr>motor_id = raw_id raw_motor,
      velocity = raw_velocity raw_motor,
      distance = cm raw_motor,
      temperature = raw_temperature raw_motor\<rparr>"

definition process_pallet :: "RawPalletData \<Rightarrow> ProcessedPallet" where
  "process_pallet raw_pallet' =
     \<lparr>pallet_id = id_pallet raw_pallet',
      timestamp = timestamp_raw raw_pallet'\<rparr>"

definition process_centroid :: "RawCentroidData \<Rightarrow> Giroscopio" where
  "process_centroid raw_centroid' =
     (let centroid' = \<lparr>c_x = centroid_x raw_centroid',
                         c_y = centroid_y raw_centroid',
                         c_z = centroid_z raw_centroid'\<rparr>
      in \<lparr>centroid = centroid'\<rparr>)"

definition process_hardware_data :: "RawHardwareData \<Rightarrow> ProcessedRobotData" where
  "process_hardware_data raw_data =
     (let processed_motors = map process_motor (raw_motors raw_data);
          processed_pallet = process_pallet (raw_pallet raw_data);
          processed_giroscopio = process_centroid (raw_centroid raw_data)
      in \<lparr>motors = processed_motors,
          pallets = [processed_pallet],
          giroscopio = processed_giroscopio\<rparr>)"

section \<open>DataManager\<close>

text \<open>
  The attributes of the one \<open>DataManager\<close> object; \<open>initialized\<close> is \<open>_initialized\<close>.
  \<open>simulator\<close> and \<open>processor\<close> hold objects without attributes and are left out. A
  \<open>State\<close> is the object together with the environment: what a method reads and
  changes. A method returns \<open>Return\<close> or the exception that leaves it, and the state
  as it is at that moment.
\<close>

record DataManager =
  initialized :: bool
  current_data :: "ProcessedRobotData option"
  historical_data :: "HistoricalRecord list"
  data_path :: string
  hist_data_path :: string

record State =
  manager :: DataManager
  world :: World

definition load_current_from_disk :: "State \<Rightarrow> unit result \<times> State" where
  "load_current_from_disk s =
     (case path_exists (data_path (manager s)) (world s) of
        Raise e \<Rightarrow> (Raise e, s)
      | Return exists \<Rightarrow>
          if \<not> exists then (Return (), s)
          else
            (case read_snapshot (data_path (manager s)) (world s) of
               Inr data_dict \<Rightarrow>
                 (Return (),
                  s\<lparr>manager := (manager s)\<lparr>current_data := Some data_dict\<rparr>,
                    world := print (Info_current_loaded (data_path (manager s))) (world s)\<rparr>)
             | Inl e \<Rightarrow>
                 if is_Exception e
                 then (Return (), s\<lparr>world := print (Aviso_current_load e) (world s)\<rparr>)
                 else (Raise e, s)))"

definition load_historical_from_disk :: "State \<Rightarrow> unit result \<times> State" where
  "load_historical_from_disk s =
     (case path_exists (hist_data_path (manager s)) (world s) of
        Raise e \<Rightarrow> (Raise e, s)
      | Return exists \<Rightarrow>
          if \<not> exists then (Return (), s)
          else
            (case read_history (hist_data_path (manager s)) (world s) of
               Inr hist_list \<Rightarrow>
                 (Return (),
                  s\<lparr>manager := (manager s)\<lparr>historical_data := hist_list\<rparr>,
                    world := print (Info_hist_loaded (length hist_list)) (world s)\<rparr>)
             | Inl e \<Rightarrow>
                 if is_Exception e
                 then (Return (), s\<lparr>world := print (Aviso_hist_load e) (world s)\<rparr>)
                 else (Raise e, s)))"

definition save_current_to_disk :: "State \<Rightarrow> unit result \<times> State" where
  "save_current_to_disk s =
     (case current_data (manager s) of
        None \<Rightarrow> (Return (), s)
      | Some d \<Rightarrow>
          (case write_file (data_path (manager s)) (Snapshot_doc d) (world s) of
             (Return _, w1) \<Rightarrow>
               (Return (), s\<lparr>world := print (Info_current_saved (data_path (manager s))) w1\<rparr>)
           | (Raise e, w1) \<Rightarrow>
               if is_Exception e
               then (Return (), s\<lparr>world := print (Erro_current_save e) w1\<rparr>)
               else (Raise e, s\<lparr>world := w1\<rparr>)))"

definition save_historical_to_disk :: "State \<Rightarrow> unit result \<times> State" where
  "save_historical_to_disk s =
     (case write_file (hist_data_path (manager s))
             (History_doc (historical_data (manager s))) (world s) of
        (Return _, w1) \<Rightarrow>
          (Return (),
           s\<lparr>world := print (Info_hist_saved (length (historical_data (manager s)))
                            (hist_data_path (manager s))) w1\<rparr>)
      | (Raise e, w1) \<Rightarrow>
          if is_Exception e
          then (Return (), s\<lparr>world := print (Erro_hist_save e) w1\<rparr>)
          else (Raise e, s\<lparr>world := w1\<rparr>))"

definition add_to_historical :: "ProcessedRobotData \<Rightarrow> State \<Rightarrow> State" where
  "add_to_historical data' s =
     (let (timestamp_coleta', w1) = datetime_now (world s);
          record' = \<lparr>timestamp_coleta = timestamp_coleta', data = data'\<rparr>
      in s\<lparr>manager := (manager s)\<lparr>historical_data := historical_data (manager s) @ [record']\<rparr>,
           world := w1\<rparr>)"

definition update_data :: "State \<Rightarrow> unit result \<times> State" where
  "update_data s =
     (let (raw_data, w1) = simulate_hardware_data (world s);
          processed_data = process_hardware_data raw_data;
          s1 = s\<lparr>manager := (manager s)\<lparr>current_data := Some processed_data\<rparr>, world := w1\<rparr>;
          s2 = add_to_historical processed_data s1
      in case save_current_to_disk s2 of
           (Raise e, s3) \<Rightarrow> (Raise e, s3)
         | (Return _, s3) \<Rightarrow>
             (case save_historical_to_disk s3 of
                (Raise e, s4) \<Rightarrow> (Raise e, s4)
              | (Return _, s4) \<Rightarrow>
                  (let (now, w5) = datetime_now (world s4)
                   in (Return (), s4\<lparr>world := print (Info_updated now) w5\<rparr>))))"

definition get_current_data :: "State \<Rightarrow> ProcessedRobotData option" where
  "get_current_data s = current_data (manager s)"

definition get_historical_data :: "State \<Rightarrow> HistoricalRecord list" where
  "get_historical_data s = historical_data (manager s)"

text \<open>The two loaders test \<open>exists()\<close> before their \<open>try\<close>: an exception of the test
  leaves the loader. \<open>__init__\<close> is run on the object in \<open>manager s\<close>; its \<open>mkdir\<close>
  stands outside every \<open>try\<close> as well: when it raises, the exception leaves the
  constructor, and so does an exception that leaves a loader.\<close>

definition DataManager_init :: "State \<Rightarrow> unit result \<times> State" where
  "DataManager_init s =
     (if initialized (manager s) then (Return (), s)
      else
        let s1 = s\<lparr>manager := (manager s)
                   \<lparr>current_data := None,
                    historical_data := [],
                    data_path := ''data/robot_data.json'',
                    hist_data_path := ''data/hist_data.json'',
                    initialized := True\<rparr>\<rparr>
        in if \<not> mkdir_ok (world s1) then (Raise OSError, s1)
           else case load_current_from_disk s1 of
                  (Raise e, s2) \<Rightarrow> (Raise e, s2)
                | (Return _, s2) \<Rightarrow> load_historical_from_disk s2)"

subsection \<open>The singleton\<close>

text \<open>
  Which object a call of \<open>DataManager()\<close> returns is a matter of identity, so here the
  objects live in a heap, at addresses. \<open>instance\<close> is the class attribute
  \<open>DataManager._instance\<close>; \<open>next_addr\<close> is the first address not yet given out. The
  object that \<open>__new__\<close> allocates has the attribute \<open>_initialized = False\<close> and no
  other; the other fields of its record are read by nothing before \<open>__init__\<close> assigns
  them.
\<close>

record Runtime =
  "instance" :: "nat option"
  heap :: "nat \<Rightarrow> DataManager"
  next_addr :: nat
  env :: World

definition DataManager_new :: "Runtime \<Rightarrow> nat \<times> Runtime" where
  "DataManager_new rt =
     (case instance rt of
        None \<Rightarrow>
          (let a = next_addr rt;
               obj = \<lparr>initialized = False, current_data = None, historical_data = [],
                      data_path = [], hist_data_path = []\<rparr>
           in (a, rt\<lparr>heap := (heap rt)(a := obj), next_addr := Suc a, instance := Some a\<rparr>))
      | Some a \<Rightarrow> (a, rt))"

text \<open>The call \<open>DataManager()\<close>: \<open>__new__\<close>, then \<open>__init__\<close> on the object it returned.\<close>

definition DataManager_call :: "Runtime \<Rightarrow> nat result \<times> Runtime" where
  "DataManager_call rt =
     (let (a, rt1) = DataManager_new rt;
          (r, s) = DataManager_init \<lparr>manager = heap rt1 a, world = env rt1\<rparr>;
          rt2 = rt1\<lparr>heap := (heap rt1)(a := manager s), env := world s\<rparr>
      in (case r of Return _ \<Rightarrow> Return a | Raise e \<Rightarrow> Raise e, rt2))"

section \<open>The API handler\<close>

text \<open>\<open>GET /api/data\<close>. The handler has no \<open>await\<close>: it runs from start to end
  without another task in between.\<close>

definition get_robot_data :: "State \<Rightarrow> ProcessedRobotData option result \<times> State" where
  "get_robot_data s =
     (let current_data' = get_current_data s
      in case current_data' of
           None \<Rightarrow>
             (case update_data s of
                (Raise e, s1) \<Rightarrow> (Raise e, s1)
              | (Return _, s1) \<Rightarrow> (Return (get_current_data s1), s1))
         | Some _ \<Rightarrow> (Return current_data', s))"

section \<open>BackgroundTaskManager\<close>

text \<open>
  \<open>start\<close> hands the coroutine \<open>data_update_loop\<close> to the event loop as a task; what
  the task does is what the coroutine does. The coroutine is modelled by the steps it
  takes, in order: a call of the cycle, a completed \<open>asyncio.sleep(d)\<close>, a printed
  line. \<open>cycle\<close> is \<open>self.data_manager.update_data\<close>, the method of whatever object
  the constructor was given. A task can be cancelled only while it is suspended in an
  \<open>await\<close>: \<open>cancelled i\<close> tells whether that happens during the \<open>i\<close>-th \<open>await\<close> of
  the task, and then the \<open>await\<close> raises \<open>CancelledError\<close>.
\<close>

datatype step = Cycle | Wait nat | Logged log_msg

datatype loop_end = Running | Left exn

definition asyncio_sleep :: "nat \<Rightarrow> (nat \<Rightarrow> bool) \<Rightarrow> nat \<Rightarrow> step list \<times> unit result" where
  "asyncio_sleep d cancelled i =
     (if cancelled i then ([], Raise CancelledError) else ([Wait d], Return ()))"

text \<open>One pass through the body of \<open>while True\<close>: the \<open>try\<close> block, then the
  \<open>except Exception\<close> clause when an exception reached it. The result is \<open>Return\<close> when
  the pass ends and the loop goes on, and the exception when one leaves the loop. The
  last component is the number of \<open>await\<close>s the task has made so far.\<close>

definition loop_body ::
  "('s \<Rightarrow> unit result \<times> 's) \<Rightarrow> (nat \<Rightarrow> bool) \<Rightarrow> nat \<Rightarrow> 's \<Rightarrow> step list \<times> unit result \<times> 's \<times> nat" where
  "loop_body cycle cancelled i s =
     (let (r, s1) = cycle s;
          (steps, r', i') =
            (case r of
               Return _ \<Rightarrow>
                 (let (w, r2) = asyncio_sleep 2 cancelled i in (Cycle # w, r2, Suc i))
             | Raise e \<Rightarrow> ([Cycle], Raise e, i))
      in case r' of
           Return _ \<Rightarrow> (steps, Return (), s1, i')
         | Raise e \<Rightarrow>
             if is_Exception e
             then (let (w, r3) = asyncio_sleep 2 cancelled i'
                   in (steps @ Logged (Erro_loop e) # w, r3, s1, Suc i'))
             else (steps, Raise e, s1, i'))"

text \<open>\<open>while True\<close>, with fuel: \<open>Running\<close> says that the fuel ran out with the loop
  still going, \<open>Left e\<close> that the exception \<open>e\<close> ended it.\<close>

fun while_true ::
  "('s \<Rightarrow> unit result \<times> 's) \<Rightarrow> (nat \<Rightarrow> bool) \<Rightarrow> nat \<Rightarrow> nat \<Rightarrow> 's \<Rightarrow> step list \<times> loop_end \<times> 's" where
  "while_true cycle cancelled 0 i s = ([], Running, s)"
| "while_true cycle cancelled (Suc fuel) i s =
     (case loop_body cycle cancelled i s of
        (steps, Return _, s1, i1) \<Rightarrow>
          (let (rest, e, s') = while_true cycle cancelled fuel i1 s1 in (steps @ rest, e, s'))
      | (steps, Raise e, s1, i1) \<Rightarrow> (steps, Left e, s1))"

definition data_update_loop ::
  "('s \<Rightarrow> unit result \<times> 's) \<Rightarrow> (nat \<Rightarrow> bool) \<Rightarrow> nat \<Rightarrow> 's \<Rightarrow> step list \<times> loop_end \<times> 's" where
  "data_update_loop cycle cancelled fuel s =
     (let (steps, e, s') = while_true cycle cancelled fuel 0 s
      in (Logged Info_loop_start # steps, e, s'))"

section \<open>Notions the claims use\<close>

text \<open>The snapshot and the historical record that a cycle started in state \<open>s\<close> makes:
  what \<open>update_data\<close> computes before it touches the state.\<close>

definition produced_snapshot :: "State \<Rightarrow> ProcessedRobotData" where
  "produced_snapshot s = process_hardware_data (fst (simulate_hardware_data (world s)))"

definition produced_record :: "State \<Rightarrow> HistoricalRecord" where
  "produced_record s =
     \<lparr>timestamp_coleta = fst (datetime_now (snd (simulate_hardware_data (world s)))),
      data = produced_snapshot s\<rparr>"

text \<open>\<open>n\<close> calls of \<open>update_data\<close> one after the other; an exception ends the run.\<close>

fun update_data_times :: "nat \<Rightarrow> State \<Rightarrow> unit result \<times> State" where
  "update_data_times 0 s = (Return (), s)"
| "update_data_times (Suc n) s =
     (case update_data_times n s of
        (Raise e, s') \<Rightarrow> (Raise e, s')
      | (Return _, s') \<Rightarrow> update_data s')"

text \<open>\<open>n\<close> calls of the handler one after the other, with the answers in order.\<close>

fun get_robot_data_times ::
  "nat \<Rightarrow> State \<Rightarrow> ProcessedRobotData option result list \<times> State" where
  "get_robot_data_times 0 s = ([], s)"
| "get_robot_data_times (Suc n) s =
     (let (r, s1) = get_robot_data s; (rs, s2) = get_robot_data_times n s1
      in (r # rs, s2))"

text \<open>\<open>n\<close> calls of \<open>update_data\<close> on the object at address \<open>a\<close>.\<close>

definition update_data_at :: "nat \<Rightarrow> nat \<Rightarrow> Runtime \<Rightarrow> Runtime" where
  "update_data_at n a rt =
     (let s = snd (update_data_times n \<lparr>manager = heap rt a, world = env rt\<rparr>)
      in rt\<lparr>heap := (heap rt)(a := manager s), env := world s\<rparr>)"

text \<open>The scheduler as the specification words it: cycle after cycle, whatever each
  one's outcome, each followed by the wait of \<open>2\<close>, a failure logged in between.\<close>

fun cycle_results :: "('s \<Rightarrow> unit result \<times> 's) \<Rightarrow> nat \<Rightarrow> 's \<Rightarrow> unit result list" where
  "cycle_results cycle 0 s = []"
| "cycle_results cycle (Suc n) s = fst (cycle s) # cycle_results cycle n (snd (cycle s))"

fun cycle_state :: "('s \<Rightarrow> unit result \<times> 's) \<Rightarrow> nat \<Rightarrow> 's \<Rightarrow> 's" where
  "cycle_state cycle 0 s = s"
| "cycle_state cycle (Suc n) s = cycle_state cycle n (snd (cycle s))"

fun iteration_steps :: "unit result \<Rightarrow> step list" where
  "iteration_steps (Return _) = [Cycle, Wait 2]"
| "iteration_steps (Raise e) = [Cycle, Logged (Erro_loop e), Wait 2]"

section \<open>Example inputs\<close>

definition example_raw :: RawHardwareData where
  "example_raw =
     \<lparr>raw_motors =
        [\<lparr>raw_id = 1, raw_velocity = 145.5, cm = 20.5, raw_temperature = 70.25\<rparr>,
         \<lparr>raw_id = 2, raw_velocity = 131, cm = 12.375, raw_temperature = 79.75\<rparr>],
      raw_pallet = \<lparr>id_pallet = 42, timestamp_raw = ''2026-01-01T00:00:00+00:00''\<rparr>,
      raw_centroid = \<lparr>centroid_x = 0.25, centroid_y = - 0.5, centroid_z = 1\<rparr>\<rparr>"

text \<open>A machine with an empty disk, a generator that returns zeros, a clock that stands
  still and a disk on which every write fails; and the state of a manager that has
  been constructed on it and has not run a cycle.\<close>

definition example_world :: World where
  "example_world =
     \<lparr>fs = Map.empty, console = [], rng = (\<lambda>i. 0),
      clock = (\<lambda>i. ''2026-01-01T00:00:00+00:00''),
      write_faults = (\<lambda>i. Dump_fails), mkdir_ok = True,
      stat_fails = (\<lambda>p. False)\<rparr>"

definition example_state :: State where
  "example_state =
     \<lparr>manager = \<lparr>initialized = True, current_data = None, historical_data = [],
                 data_path = ''data/robot_data.json'',
                 hist_data_path = ''data/hist_data.json''\<rparr>,
      world = example_world\<rparr>"

text \<open>A process in which \<open>DataManager\<close> has not been called, on a disk where the
  file of the current snapshot is damaged and the file of the history holds one
  record.\<close>

definition example_record :: HistoricalRecord where
  "example_record =
     \<lparr>timestamp_coleta = ''2025-12-31T23:59:58+00:00'',
      data = process_hardware_data example_raw\<rparr>"

definition example_runtime :: Runtime where
  "example_runtime =
     \<lparr>instance = None,
      heap = (\<lambda>a. \<lparr>initialized = False, current_data = None, historical_data = [],
                     data_path = [], hist_data_path = []\<rparr>),
      next_addr = 0,
      env = example_world
        \<lparr>fs := [''data/robot_data.json'' \<mapsto> Garbage,
                ''data/hist_data.json'' \<mapsto> History_doc [example_record]]\<rparr>\<rparr>"


text \<open>A cycle that fails on every even state, and counts its calls.\<close>

definition flaky_cycle :: "nat \<Rightarrow> unit result \<times> nat" where
  "flaky_cycle k = (if even k then Raise ValidationError else Return (), Suc k)"

section \<open>What a cycle does to the state\<close>

lemma save_current_to_disk_returns [simp]: "fst (save_current_to_disk s) = Return ()"
  by (simp add: save_current_to_disk_def write_file_def Let_def
      split: option.splits write_outcome.splits)

lemma save_current_to_disk_manager [simp]: "manager (snd (save_current_to_disk s)) = manager s"
  by (simp add: save_current_to_disk_def write_file_def Let_def
      split: option.splits write_outcome.splits)

lemma save_current_to_disk_clock [simp]:
  "clock (world (snd (save_current_to_disk s))) = clock (world s)"
  by (simp add: save_current_to_disk_def write_file_def Let_def print_def
      split: option.splits write_outcome.splits)

lemma save_current_to_disk_console:
  "console (world (snd (save_current_to_disk s))) =
     console (world s) @
     (case current_data (manager s) of
        None \<Rightarrow> []
      | Some d \<Rightarrow> [if write_faults (world s) 0 = Write_ok
                   then Info_current_saved (data_path (manager s))
                   else Erro_current_save OSError])"
  by (simp add: save_current_to_disk_def write_file_def Let_def print_def
      split: option.splits write_outcome.splits)

lemma save_current_to_disk_faults:
  "write_faults (world (snd (save_current_to_disk s))) =
     (case current_data (manager s) of
        None \<Rightarrow> write_faults (world s)
      | Some d \<Rightarrow> (\<lambda>i. write_faults (world s) (Suc i)))"
  by (simp add: save_current_to_disk_def write_file_def Let_def print_def
      split: option.splits write_outcome.splits)

lemma save_historical_to_disk_returns [simp]: "fst (save_historical_to_disk s) = Return ()"
  by (simp add: save_historical_to_disk_def write_file_def Let_def
      split: write_outcome.splits)

lemma save_historical_to_disk_manager [simp]:
  "manager (snd (save_historical_to_disk s)) = manager s"
  by (simp add: save_historical_to_disk_def write_file_def Let_def
      split: write_outcome.splits)

lemma save_historical_to_disk_clock [simp]:
  "clock (world (snd (save_historical_to_disk s))) = clock (world s)"
  by (simp add: save_historical_to_disk_def write_file_def Let_def print_def
      split: write_outcome.splits)

lemma save_historical_to_disk_console:
  "console (world (snd (save_historical_to_disk s))) =
     console (world s) @
     [if write_faults (world s) 0 = Write_ok
      then Info_hist_saved (length (historical_data (manager s))) (hist_data_path (manager s))
      else Erro_hist_save OSError]"
  by (simp add: save_historical_to_disk_def write_file_def Let_def print_def
      split: write_outcome.splits)

lemma add_to_historical_manager:
  "manager (add_to_historical d s) =
     (manager s)\<lparr>historical_data := historical_data (manager s) @
        [\<lparr>timestamp_coleta = fst (datetime_now (world s)), data = d\<rparr>]\<rparr>"
  by (simp add: add_to_historical_def Let_def split_beta)

lemma add_to_historical_world:
  "world (add_to_historical d s) = snd (datetime_now (world s))"
  by (simp add: add_to_historical_def Let_def split_beta)

lemma range_1_4: "[1..3] = [1, 2, 3 :: int]"
  by (simp add: upto_rec1)

lemma random_uniform_world: "snd (random_uniform a b w) = w\<lparr>rng := \<lambda>i. rng w (Suc i)\<rparr>"
  by (simp add: random_uniform_def random_random_def take_entropy_def Let_def split_beta)

lemma random_randint_world: "snd (random_randint a b w) = w\<lparr>rng := \<lambda>i. rng w (Suc i)\<rparr>"
  by (simp add: random_randint_def take_entropy_def Let_def split_beta)

lemma generate_motor_data_world:
  "snd (generate_motor_data i w) = w\<lparr>rng := \<lambda>i. rng w (Suc (Suc (Suc i)))\<rparr>"
  by (simp add: generate_motor_data_def Let_def split_beta random_uniform_world)

lemma generate_pallet_data_world:
  "snd (generate_pallet_data w) =
     w\<lparr>rng := \<lambda>i. rng w (Suc i), clock := \<lambda>i. clock w (Suc i)\<rparr>"
  by (simp add: generate_pallet_data_def datetime_now_def Let_def split_beta
      random_randint_world)

lemma generate_centroid_data_world:
  "snd (generate_centroid_data w) = w\<lparr>rng := \<lambda>i. rng w (Suc (Suc (Suc i)))\<rparr>"
  by (simp add: generate_centroid_data_def Let_def split_beta random_uniform_world)

lemma simulate_hardware_data_world:
  "snd (simulate_hardware_data w) =
     w\<lparr>rng := \<lambda>i. rng w (13 + i), clock := \<lambda>i. clock w (Suc i)\<rparr>"
  by (simp add: simulate_hardware_data_def range_1_4 Let_def split_beta
      generate_motor_data_world generate_pallet_data_world generate_centroid_data_world
      eval_nat_numeral)

lemma simulate_hardware_data_timestamp:
  "timestamp_raw (raw_pallet (fst (simulate_hardware_data w))) = clock w 0"
  by (simp add: simulate_hardware_data_def range_1_4 Let_def split_beta
      generate_motor_data_world generate_pallet_data_def datetime_now_def
      random_randint_world)

lemma simulate_hardware_data_clock:
  "clock (snd (simulate_hardware_data w)) = (\<lambda>i. clock w (Suc i))"
  by (simp add: simulate_hardware_data_world)

lemma update_data_unfold:
  "update_data s =
     (let s2 = add_to_historical (produced_snapshot s)
                 (s\<lparr>manager := (manager s)\<lparr>current_data := Some (produced_snapshot s)\<rparr>,
                    world := snd (simulate_hardware_data (world s))\<rparr>);
          s4 = snd (save_historical_to_disk (snd (save_current_to_disk s2)))
      in (Return (),
          s4\<lparr>world := print (Info_updated (fst (datetime_now (world s4))))
                         (snd (datetime_now (world s4)))\<rparr>))"
proof -
  have split_pair: "\<And>(p :: unit result \<times> State) f g.
      fst p = Return () \<Longrightarrow>
      (case p of (Return u, s') \<Rightarrow> f s' | (Raise e, s') \<Rightarrow> g e s') = f (snd p)"
    by (auto split: prod.splits result.splits)
  show ?thesis
    unfolding update_data_def produced_snapshot_def Let_def split_beta
    by (simp add: split_pair)
qed

lemma update_data_returns: "fst (update_data s) = Return ()"
  by (simp add: update_data_unfold Let_def)

lemma update_data_manager:
  "manager (snd (update_data s)) =
     (manager s)\<lparr>current_data := Some (produced_snapshot s),
                 historical_data := historical_data (manager s) @ [produced_record s]\<rparr>"
  by (simp add: update_data_unfold Let_def add_to_historical_manager produced_record_def)

lemma update_data_console:
  "console (world (snd (update_data s))) =
     console (world s) @
     [if write_faults (world s) 0 = Write_ok
      then Info_current_saved (data_path (manager s))
      else Erro_current_save OSError,
      if write_faults (world s) (Suc 0) = Write_ok
      then Info_hist_saved (Suc (length (historical_data (manager s)))) (hist_data_path (manager s))
      else Erro_hist_save OSError,
      Info_updated (clock (world s) (Suc (Suc 0)))]"
  by (simp add: update_data_unfold Let_def print_def datetime_now_def
      save_historical_to_disk_console save_current_to_disk_console save_current_to_disk_faults
      add_to_historical_manager add_to_historical_world simulate_hardware_data_world)

lemma produced_snapshot_pallets:
  "map timestamp (pallets (produced_snapshot s)) = [clock (world s) 0]"
  by (simp add: produced_snapshot_def process_hardware_data_def process_pallet_def Let_def
      simulate_hardware_data_timestamp)

lemma produced_record_timestamp:
  "timestamp_coleta (produced_record s) = clock (world s) (Suc 0)"
  by (simp add: produced_record_def datetime_now_def simulate_hardware_data_clock)

lemma update_data_times_returns: "fst (update_data_times n s) = Return ()"
  by (induction n) (auto simp: update_data_returns split: prod.splits result.splits)

lemma update_data_times_Suc:
  "update_data_times (Suc n) s = update_data (snd (update_data_times n s))"
  using update_data_times_returns [of n s]
  by (auto split: prod.splits result.splits)

lemma update_data_times_history:
  "historical_data (manager (snd (update_data_times n s))) =
     historical_data (manager s) @
     map (\<lambda>i. produced_record (snd (update_data_times i s))) [0..<n]"
proof (induction n)
  case 0
  show ?case by simp
next
  case (Suc n)
  show ?case
    by (simp only: update_data_times_Suc update_data_manager) (simp add: Suc)
qed

lemma update_data_times_current:
  "current_data (manager (snd (update_data_times (Suc n) s))) =
     Some (produced_snapshot (snd (update_data_times n s)))"
  by (simp only: update_data_times_Suc update_data_manager) simp

section \<open>The update cycle\<close>

text \<open>
  C1. Start with no current snapshot and an empty history, and call \<open>update_data\<close>
  \<open>N\<close> times. Every call returns. The history then has exactly \<open>N\<close> records, and
  record \<open>i\<close> is the one that call \<open>i + 1\<close> made, around the snapshot that call
  produced: call order. Each call appends one record to the history as the call before
  left it and removes none. The current snapshot is the one the \<open>N\<close>-th call produced,
  whole, and is absent only for \<open>N = 0\<close>.
\<close>

theorem update_data_times_history_and_current:
  assumes "current_data (manager s) = None" and "historical_data (manager s) = []"
  shows "fst (update_data_times N s) = Return () \<and>
         length (historical_data (manager (snd (update_data_times N s)))) = N \<and>
         (\<forall>i < N. historical_data (manager (snd (update_data_times N s))) ! i =
                     produced_record (snd (update_data_times i s)) \<and>
                   data (historical_data (manager (snd (update_data_times N s))) ! i) =
                     produced_snapshot (snd (update_data_times i s))) \<and>
         (\<forall>n. historical_data (manager (snd (update_data_times (Suc n) s))) =
                historical_data (manager (snd (update_data_times n s))) @
                [produced_record (snd (update_data_times n s))]) \<and>
         current_data (manager (snd (update_data_times N s))) =
           (if N = 0 then None
            else Some (produced_snapshot (snd (update_data_times (N - 1) s))))"
proof -
  have h: "historical_data (manager (snd (update_data_times N s))) =
             map (\<lambda>i. produced_record (snd (update_data_times i s))) [0..<N]"
    by (simp add: update_data_times_history assms)
  have step: "\<forall>n. historical_data (manager (snd (update_data_times (Suc n) s))) =
                historical_data (manager (snd (update_data_times n s))) @
                [produced_record (snd (update_data_times n s))]"
    by (simp del: update_data_times.simps add: update_data_times_Suc update_data_manager)
  have cur: "current_data (manager (snd (update_data_times N s))) =
           (if N = 0 then None
            else Some (produced_snapshot (snd (update_data_times (N - 1) s))))"
  proof (cases N)
    case 0
    then show ?thesis by (simp add: assms)
  next
    case (Suc n)
    then show ?thesis by (simp only: update_data_times_current) simp
  qed
  have nth: "\<forall>i < N. historical_data (manager (snd (update_data_times N s))) ! i =
                     produced_record (snd (update_data_times i s)) \<and>
                   data (historical_data (manager (snd (update_data_times N s))) ! i) =
                     produced_snapshot (snd (update_data_times i s))"
    by (simp add: h produced_record_def)
  from h step cur nth show ?thesis
    by (simp only: update_data_times_returns length_map length_upt) simp
qed

theorem update_data_times_history_and_current_witness:
  "current_data (manager example_state) = None \<and>
   historical_data (manager example_state) = [] \<and>
   length (historical_data (manager (snd (update_data_times 2 example_state)))) = 2 \<and>
   historical_data (manager (snd (update_data_times 2 example_state))) ! 1 =
     produced_record (snd (update_data_times 1 example_state)) \<and>
   current_data (manager (snd (update_data_times 2 example_state))) =
     Some (produced_snapshot (snd (update_data_times 1 example_state)))"
proof -
  have c: "current_data (manager example_state) = None"
    and h: "historical_data (manager example_state) = []"
    by (simp_all add: example_state_def)
  from update_data_times_history_and_current [OF c h, of 2] c h show ?thesis
    by (simp del: update_data_times.simps)
qed

section \<open>The transformation is a renaming\<close>

text \<open>
  C2. For every raw reading, \<open>process_hardware_data\<close> only renames and regroups: the
  output has as many motors as the input, the motor at each position \<open>i\<close> has the input
  motor's \<open>id\<close>, \<open>velocity\<close> and \<open>temperature\<close> and its \<open>cm\<close> as \<open>distance\<close>; the
  pallets are the one-element list holding the raw pallet with \<open>id_pallet\<close> as \<open>id\<close>
  and \<open>timestamp_raw\<close> as \<open>timestamp\<close>; the three orientation components sit
  unchanged under \<open>giroscopio.centroid\<close>.
\<close>

theorem process_hardware_data_renames:
  "length (motors (process_hardware_data raw)) = length (raw_motors raw) \<and>
   (\<forall>i < length (raw_motors raw).
      motor_id (motors (process_hardware_data raw) ! i) = raw_id (raw_motors raw ! i) \<and>
      velocity (motors (process_hardware_data raw) ! i) = raw_velocity (raw_motors raw ! i) \<and>
      distance (motors (process_hardware_data raw) ! i) = cm (raw_motors raw ! i) \<and>
      temperature (motors (process_hardware_data raw) ! i) =
        raw_temperature (raw_motors raw ! i)) \<and>
   pallets (process_hardware_data raw) =
     [\<lparr>pallet_id = id_pallet (raw_pallet raw),
       timestamp = timestamp_raw (raw_pallet raw)\<rparr>] \<and>
   giroscopio (process_hardware_data raw) =
     \<lparr>centroid = \<lparr>c_x = centroid_x (raw_centroid raw),
                   c_y = centroid_y (raw_centroid raw),
                   c_z = centroid_z (raw_centroid raw)\<rparr>\<rparr>"
  by (simp add: process_hardware_data_def process_motor_def process_pallet_def
      process_centroid_def)

theorem process_hardware_data_renames_witness:
  "length (motors (process_hardware_data example_raw)) = 2 \<and>
   motor_id (motors (process_hardware_data example_raw) ! 1) = 2 \<and>
   velocity (motors (process_hardware_data example_raw) ! 1) = 131 \<and>
   distance (motors (process_hardware_data example_raw) ! 1) = 12.375 \<and>
   temperature (motors (process_hardware_data example_raw) ! 1) = 79.75 \<and>
   pallets (process_hardware_data example_raw) =
     [\<lparr>pallet_id = 42, timestamp = ''2026-01-01T00:00:00+00:00''\<rparr>] \<and>
   giroscopio (process_hardware_data example_raw) =
     \<lparr>centroid = \<lparr>c_x = 0.25, c_y = - 0.5, c_z = 1\<rparr>\<rparr>"
  using process_hardware_data_renames [of example_raw]
  by (simp add: example_raw_def)

section \<open>Rounding to binary64 is monotone and exact on integers\<close>

lemma rhe_lower: "\<lfloor>x\<rfloor> \<le> round_half_even x"
  by (auto simp: round_half_even_def Let_def)

lemma rhe_upper: "round_half_even x \<le> \<lfloor>x\<rfloor> + 1"
  by (auto simp: round_half_even_def Let_def)

lemma rhe_mono: "x \<le> y \<Longrightarrow> round_half_even x \<le> round_half_even y"
proof -
  assume xy: "x \<le> y"
  then have f: "\<lfloor>x\<rfloor> \<le> \<lfloor>y\<rfloor>" by (rule floor_mono)
  show ?thesis
  proof (cases "\<lfloor>x\<rfloor> = \<lfloor>y\<rfloor>")
    case True
    with xy show ?thesis by (auto simp: round_half_even_def Let_def)
  next
    case False
    with f have "\<lfloor>x\<rfloor> + 1 \<le> \<lfloor>y\<rfloor>" by simp
    with rhe_upper [of x] rhe_lower [of y] show ?thesis by linarith
  qed
qed

lemma rhe_of_int [simp]: "round_half_even (of_int n) = n"
  by (simp add: round_half_even_def)

lemma rhe_minus: "round_half_even (- x) = - round_half_even x"
proof (cases "x \<in> \<int>")
  case True
  then obtain n where "x = of_int n" by (auto elim: Ints_cases)
  then have "- x = of_int (- n)" by simp
  then show ?thesis using \<open>x = of_int n\<close> by (simp only: rhe_of_int)
next
  case False
  then have "x \<noteq> of_int \<lfloor>x\<rfloor>" by (metis Ints_of_int)
  then have fl: "\<lfloor>- x\<rfloor> = - \<lfloor>x\<rfloor> - 1"
    by (simp add: floor_minus ceiling_altdef)
  show ?thesis
    unfolding round_half_even_def Let_def fl by auto
qed

lemma ilog2_bounds:
  assumes "0 < x"
  shows "2 powi ilog2 x \<le> x" and "x < 2 powi (ilog2 x + 1)"
proof -
  have "2 powi ilog2 x \<le> x \<and> x < 2 powi (ilog2 x + 1)"
  proof (cases "1 \<le> x")
    case True
    define n where "n = \<lfloor>x\<rfloor>"
    have n: "0 < n" using True by (simp add: n_def)
    then have b1: "1 \<le> bitlen n" by (simp add: bitlen_alt_def)
    have e: "ilog2 x = bitlen n - 1" using True by (simp add: ilog2_def n_def)
    from bitlen_bounds [OF n] have lo: "2 ^ nat (bitlen n - 1) \<le> n" and hi: "n < 2 ^ nat (bitlen n)"
      by simp_all
    have "2 ^ nat (bitlen n - 1) \<le> real_of_int n" using lo by simp
    also have "\<dots> \<le> x" by (simp add: n_def)
    finally have 1: "2 powi ilog2 x \<le> x" using b1 by (simp add: e power_int_def)
    have "n + 1 \<le> 2 ^ nat (bitlen n)" using hi by simp
    then have "real_of_int (n + 1) \<le> 2 ^ nat (bitlen n)"
      by (simp only: of_int_le_numeral_power_cancel_iff)
    moreover have "x < real_of_int (n + 1)" by (simp add: n_def)
    ultimately have "x < 2 ^ nat (bitlen n)" by linarith
    then have 2: "x < 2 powi (ilog2 x + 1)" using b1 by (simp add: e power_int_def)
    from 1 2 show ?thesis ..
  next
    case False
    define c where "c = \<lceil>1 / x\<rceil>"
    define m where "m = bitlen (c - 1)"
    from False assms have "1 < 1 / x" by simp
    then have c2: "2 \<le> c" unfolding c_def by (simp add: le_ceiling_iff)
    then have c1: "0 < c - 1" by simp
    then have m1: "1 \<le> m" by (simp add: m_def bitlen_alt_def)
    have e: "ilog2 x = - m" using False by (simp add: ilog2_def c_def m_def)
    from bitlen_bounds [OF c1] have lo: "2 ^ nat (m - 1) \<le> c - 1" and hi: "c - 1 < 2 ^ nat m"
      by (simp_all add: m_def)
    have "c \<le> 2 ^ nat m" using hi by simp
    then have "real_of_int c \<le> 2 ^ nat m"
      by (simp only: of_int_le_numeral_power_cancel_iff)
    moreover have "1 / x \<le> real_of_int c" by (simp add: c_def)
    ultimately have "1 / x \<le> 2 ^ nat m" by linarith
    then have "1 \<le> 2 ^ nat m * x" using assms by (simp add: field_simps)
    then have 1: "2 powi ilog2 x \<le> x" using m1 by (simp add: e power_int_def field_simps)
    have "2 ^ nat (m - 1) \<le> real_of_int (c - 1)"
      using lo by (simp only: numeral_power_le_of_int_cancel_iff)
    moreover have "real_of_int (c - 1) < 1 / x" unfolding c_def by linarith
    ultimately have "2 ^ nat (m - 1) < 1 / x" by linarith
    then have "2 ^ nat (m - 1) * x < 1" using assms by (simp add: field_simps)
    moreover have "nat (m - 1) = nat m - 1" using m1 by simp
    ultimately have 2: "x < 2 powi (ilog2 x + 1)" using m1
      by (cases "m = 1") (simp_all add: e power_int_def field_simps nat_diff_distrib)
    from 1 2 show ?thesis ..
  qed
  then show "2 powi ilog2 x \<le> x" and "x < 2 powi (ilog2 x + 1)" by simp_all
qed

lemma ilog2_mono:
  assumes "0 < x" "x \<le> y"
  shows "ilog2 x \<le> ilog2 y"
proof (rule ccontr)
  assume "\<not> ilog2 x \<le> ilog2 y"
  then have "ilog2 y + 1 \<le> ilog2 x" by simp
  then have "(2::real) powi (ilog2 y + 1) \<le> 2 powi ilog2 x"
    by (intro power_int_increasing) simp_all
  also have "\<dots> \<le> x" using assms by (intro ilog2_bounds) simp
  finally have "2 powi (ilog2 y + 1) \<le> y" using assms by simp
  moreover have "y < 2 powi (ilog2 y + 1)" using assms by (intro ilog2_bounds) simp
  ultimately show False by simp
qed

lemma ulp_exp_mono: "0 < x \<Longrightarrow> x \<le> y \<Longrightarrow> ulp_exp x \<le> ulp_exp y"
  using ilog2_mono [of x y] by (simp add: ulp_exp_def)

lemma fl_nonneg: "0 \<le> x \<Longrightarrow> 0 \<le> fl x"
proof -
  assume x: "0 \<le> x"
  have "0 \<le> x / 2 powi ulp_exp x" using x by simp
  then have "round_half_even 0 \<le> round_half_even (x / 2 powi ulp_exp x)" by (rule rhe_mono)
  then have "0 \<le> round_half_even (x / 2 powi ulp_exp x)" using rhe_of_int [of 0] by simp
  then show ?thesis by (simp add: fl_def)
qed

lemma fl_minus: "fl (- x) = - fl x"
  by (simp add: fl_def ulp_exp_def rhe_minus)

lemma fl_mono_pos:
  assumes "0 < x" "x \<le> y"
  shows "fl x \<le> fl y"
proof -
  define ex where "ex = ulp_exp x"
  define ey where "ey = ulp_exp y"
  have y: "0 < y" using assms by simp
  have le: "ex \<le> ey" unfolding ex_def ey_def using assms by (rule ulp_exp_mono)
  have fx: "fl x = of_int (round_half_even (x / 2 powi ex)) * 2 powi ex"
    using assms by (simp add: fl_def ex_def)
  have fy: "fl y = of_int (round_half_even (y / 2 powi ey)) * 2 powi ey"
    using y by (simp add: fl_def ey_def)
  show ?thesis
  proof (cases "ex = ey")
    case True
    have "x / 2 powi ey \<le> y / 2 powi ey" using assms by (simp add: divide_right_mono)
    then have "round_half_even (x / 2 powi ey) \<le> round_half_even (y / 2 powi ey)"
      by (rule rhe_mono)
    then show ?thesis unfolding fx fy True by (simp add: mult_right_mono)
  next
    case False
    with le have lt: "ex + 1 \<le> ey" by simp
    have ex_ge: "ilog2 x - 52 \<le> ex" using assms by (simp add: ex_def ulp_exp_def)
    have "- 1074 \<le> ex" by (simp add: ex_def ulp_exp_def)
    with lt have ey_eq: "ey = ilog2 y - 52" using y by (simp add: ey_def ulp_exp_def max_def split: if_splits)
    have "x < 2 powi (ilog2 x + 1)" using assms by (intro ilog2_bounds)
    also have "\<dots> \<le> 2 powi (ex + 53)" using ex_ge by (intro power_int_increasing) simp_all
    also have "\<dots> = 2 ^ 53 * 2 powi ex" by (simp add: power_int_add)
    finally have "x / 2 powi ex \<le> of_int (2 ^ 53)" by (simp add: field_simps)
    then have "round_half_even (x / 2 powi ex) \<le> round_half_even (of_int (2 ^ 53))" by (rule rhe_mono)
    then have "round_half_even (x / 2 powi ex) \<le> 2 ^ 53" by (simp only: rhe_of_int)
    then have "real_of_int (round_half_even (x / 2 powi ex)) \<le> 2 ^ 53"
      by (simp only: of_int_le_numeral_power_cancel_iff)
    then have "fl x \<le> 2 ^ 53 * 2 powi ex" unfolding fx by (simp add: mult_right_mono)
    also have "\<dots> = 2 powi (ex + 53)" by (simp add: power_int_add)
    also have "\<dots> \<le> 2 powi (ey + 52)" using lt by (intro power_int_increasing) simp_all
    finally have 1: "fl x \<le> 2 powi (ey + 52)" .
    have "2 powi (ey + 52) = 2 powi ilog2 y" by (simp add: ey_eq)
    also have "\<dots> \<le> y" using y by (intro ilog2_bounds)
    finally have "2 ^ 52 * 2 powi ey \<le> y" by (simp add: power_int_add)
    then have "of_int (2 ^ 52) \<le> y / 2 powi ey" by (simp add: field_simps)
    then have "round_half_even (of_int (2 ^ 52)) \<le> round_half_even (y / 2 powi ey)" by (rule rhe_mono)
    then have "2 ^ 52 \<le> round_half_even (y / 2 powi ey)" by (simp only: rhe_of_int)
    then have "2 ^ 52 \<le> real_of_int (round_half_even (y / 2 powi ey))"
      by (simp only: numeral_power_le_of_int_cancel_iff)
    then have "2 ^ 52 * 2 powi ey \<le> fl y" unfolding fy by (simp add: mult_right_mono)
    then have 2: "2 powi (ey + 52) \<le> fl y" by (simp add: power_int_add)
    from 1 2 show ?thesis by simp
  qed
qed

lemma fl_mono: "x \<le> y \<Longrightarrow> fl x \<le> fl y"
proof -
  assume xy: "x \<le> y"
  consider "0 < x" | "x \<le> 0" "0 \<le> y" | "y < 0" by linarith
  then show ?thesis
  proof cases
    case 1
    then show ?thesis using xy by (rule fl_mono_pos)
  next
    case 2
    have "fl x = - fl (- x)" by (simp add: fl_minus)
    moreover have "0 \<le> fl (- x)" using 2 by (intro fl_nonneg) simp
    moreover have "0 \<le> fl y" using 2 by (intro fl_nonneg)
    ultimately show ?thesis by simp
  next
    case 3
    then have "fl (- y) \<le> fl (- x)" using xy by (intro fl_mono_pos) simp_all
    then show ?thesis by (simp add: fl_minus)
  qed
qed

lemma fl_of_int:
  assumes "\<bar>n\<bar> < 2 ^ 53"
  shows "fl (of_int n) = of_int n"
proof (cases "n = 0")
  case True
  then show ?thesis by (simp add: fl_def)
next
  case False
  define e where "e = ulp_exp (of_int n)"
  have pos: "0 < \<bar>real_of_int n\<bar>" using False by simp
  have "2 powi ilog2 \<bar>real_of_int n\<bar> \<le> \<bar>real_of_int n\<bar>" using pos by (rule ilog2_bounds)
  also have "\<dots> < 2 ^ 53" using assms
    by (metis of_int_abs of_int_less_numeral_power_cancel_iff)
  finally have "(2::real) powi ilog2 \<bar>real_of_int n\<bar> < 2 powi 53" by simp
  then have "ilog2 \<bar>real_of_int n\<bar> < 53"
    using power_int_le_imp_less_exp [of "2::real" "ilog2 \<bar>real_of_int n\<bar>" 53] by simp
  then have e: "e \<le> 0" by (simp add: e_def ulp_exp_def)
  then have p: "(2::real) powi e = 1 / 2 ^ nat (- e)"
    by (simp add: power_int_def field_simps)
  have "real_of_int n / 2 powi e = of_int (n * 2 ^ nat (- e))" by (simp add: p)
  then have "round_half_even (real_of_int n / 2 powi e) = n * 2 ^ nat (- e)"
    by (simp only: rhe_of_int)
  then show ?thesis using False by (simp add: fl_def e_def [symmetric] p)
qed

section \<open>What the simulator produces\<close>

lemma random_random_range:
  "0 \<le> fst (random_random w) \<and> fst (random_random w) < 1"
  by (simp add: random_random_def take_entropy_def Let_def split_beta)

lemma random_uniform_range:
  assumes "a \<le> b" and "\<bar>a\<bar> < 2 ^ 53" and "\<bar>b\<bar> < 2 ^ 53" and "\<bar>b - a\<bar> < 2 ^ 53"
  shows "of_int a \<le> fst (random_uniform (of_int a) (of_int b) w) \<and>
         fst (random_uniform (of_int a) (of_int b) w) \<le> of_int b"
proof -
  define r where "r = fst (random_random w)"
  have r: "0 \<le> r" "r < 1" using random_random_range [of w] by (simp_all add: r_def)
  define d :: real where "d = of_int (b - a)"
  have d0: "0 \<le> d" using assms(1) by (simp add: d_def)
  have fd: "fsub (of_int b) (of_int a) = d"
    unfolding fsub_def d_def using fl_of_int [OF assms(4)] by simp
  define x where "x = fmul d r"
  have "fl 0 \<le> fl (d * r)" using d0 r by (intro fl_mono) simp
  then have x0: "0 \<le> x" using fl_of_int [of 0] by (simp add: x_def fmul_def)
  have "d * r \<le> d" using d0 r by (simp add: mult_left_le)
  then have "fl (d * r) \<le> fl d" by (rule fl_mono)
  then have xd: "x \<le> d" using fl_of_int [OF assms(4)] by (simp add: x_def fmul_def d_def)
  have u: "fst (random_uniform (of_int a) (of_int b) w) = fl (of_int a + x)"
    by (simp add: random_uniform_def Let_def split_beta fd x_def r_def fadd_def)
  have "fl (of_int a) \<le> fl (of_int a + x)" using x0 by (intro fl_mono) simp
  moreover have "fl (of_int a + x) \<le> fl (of_int b)"
    using xd by (intro fl_mono) (simp add: d_def)
  ultimately show ?thesis
    unfolding u using fl_of_int [OF assms(2)] fl_of_int [OF assms(3)] by simp
qed

lemma py_round_range:
  assumes "of_int a \<le> x" and "x \<le> of_int b" and "\<bar>a\<bar> < 2 ^ 53" and "\<bar>b\<bar> < 2 ^ 53"
  shows "of_int a \<le> py_round x n \<and> py_round x n \<le> of_int b"
proof -
  define k where "k = round_half_even (x * 10 ^ n)"
  have "real_of_int (a * 10 ^ n) \<le> x * 10 ^ n" using assms(1) by simp
  then have "round_half_even (real_of_int (a * 10 ^ n)) \<le> k"
    unfolding k_def by (rule rhe_mono)
  then have "a * 10 ^ n \<le> k" by (simp only: rhe_of_int)
  then have "real_of_int (a * 10 ^ n) \<le> real_of_int k" by (simp only: of_int_le_iff)
  then have lo: "of_int a \<le> real_of_int k / 10 ^ n" by (simp add: field_simps)
  have "x * 10 ^ n \<le> real_of_int (b * 10 ^ n)" using assms(2) by simp
  then have "k \<le> round_half_even (real_of_int (b * 10 ^ n))"
    unfolding k_def by (rule rhe_mono)
  then have "k \<le> b * 10 ^ n" by (simp only: rhe_of_int)
  then have "real_of_int k \<le> real_of_int (b * 10 ^ n)" by (simp only: of_int_le_iff)
  then have hi: "real_of_int k / 10 ^ n \<le> of_int b" by (simp add: field_simps)
  have "fl (of_int a) \<le> fl (real_of_int k / 10 ^ n)" using lo by (rule fl_mono)
  moreover have "fl (real_of_int k / 10 ^ n) \<le> fl (of_int b)" using hi by (rule fl_mono)
  ultimately show ?thesis
    using fl_of_int [OF assms(3)] fl_of_int [OF assms(4)] by (simp add: py_round_def k_def)
qed

lemma py_round_decimal: "\<exists>k :: int. py_round x n = fl (of_int k / 10 ^ n)"
  by (auto simp: py_round_def)

lemma generate_motor_data_ranges:
  "raw_id (fst (generate_motor_data i w)) = i \<and>
   130 \<le> raw_velocity (fst (generate_motor_data i w)) \<and>
   raw_velocity (fst (generate_motor_data i w)) \<le> 160 \<and>
   (\<exists>k :: int. raw_velocity (fst (generate_motor_data i w)) = fl (of_int k / 10)) \<and>
   10 \<le> cm (fst (generate_motor_data i w)) \<and>
   cm (fst (generate_motor_data i w)) \<le> 30 \<and>
   (\<exists>k :: int. cm (fst (generate_motor_data i w)) = fl (of_int k / 10)) \<and>
   65 \<le> raw_temperature (fst (generate_motor_data i w)) \<and>
   raw_temperature (fst (generate_motor_data i w)) \<le> 80 \<and>
   (\<exists>k :: int. raw_temperature (fst (generate_motor_data i w)) = fl (of_int k / 10))"
proof -
  have u: "\<And>a b w. a \<le> b \<Longrightarrow> \<bar>a\<bar> < 2 ^ 53 \<Longrightarrow> \<bar>b\<bar> < 2 ^ 53 \<Longrightarrow> \<bar>b - a\<bar> < 2 ^ 53 \<Longrightarrow>
          of_int a \<le> py_round (fst (random_uniform (of_int a) (of_int b) w)) 1 \<and>
          py_round (fst (random_uniform (of_int a) (of_int b) w)) 1 \<le> of_int b"
    using random_uniform_range py_round_range by blast
  from u [of 130 160] u [of 10 30] u [of 65 80] py_round_decimal [where n = 1]
  show ?thesis
    by (simp add: generate_motor_data_def Let_def split_beta)
qed

lemma generate_centroid_data_ranges:
  "- 1 \<le> centroid_x (fst (generate_centroid_data w)) \<and>
   centroid_x (fst (generate_centroid_data w)) \<le> 1 \<and>
   (\<exists>k :: int. centroid_x (fst (generate_centroid_data w)) = fl (of_int k / 100)) \<and>
   - 1 \<le> centroid_y (fst (generate_centroid_data w)) \<and>
   centroid_y (fst (generate_centroid_data w)) \<le> 1 \<and>
   (\<exists>k :: int. centroid_y (fst (generate_centroid_data w)) = fl (of_int k / 100)) \<and>
   - 1 \<le> centroid_z (fst (generate_centroid_data w)) \<and>
   centroid_z (fst (generate_centroid_data w)) \<le> 1 \<and>
   (\<exists>k :: int. centroid_z (fst (generate_centroid_data w)) = fl (of_int k / 100))"
proof -
  have u: "\<And>w. - 1 \<le> py_round (fst (random_uniform (- 1) 1 w)) 2 \<and>
               py_round (fst (random_uniform (- 1) 1 w)) 2 \<le> 1"
  proof -
    fix w
    have r: "of_int (- 1) \<le> fst (random_uniform (of_int (- 1)) (of_int 1) w) \<and>
             fst (random_uniform (of_int (- 1)) (of_int 1) w) \<le> of_int 1"
      by (rule random_uniform_range) simp_all
    have "of_int (- 1) \<le> py_round (fst (random_uniform (of_int (- 1)) (of_int 1) w)) 2 \<and>
          py_round (fst (random_uniform (of_int (- 1)) (of_int 1) w)) 2 \<le> of_int 1"
      using r by (intro py_round_range) simp_all
    then show "- 1 \<le> py_round (fst (random_uniform (- 1) 1 w)) 2 \<and>
               py_round (fst (random_uniform (- 1) 1 w)) 2 \<le> 1"
      by simp
  qed
  have d: "\<And>x. \<exists>k :: int. py_round x 2 = fl (of_int k / 100)"
    using py_round_decimal [where n = 2] by simp
  from u d show ?thesis
    by (simp add: generate_centroid_data_def Let_def split_beta)
qed

lemma generate_pallet_data_range:
  "1 \<le> id_pallet (fst (generate_pallet_data w)) \<and>
   id_pallet (fst (generate_pallet_data w)) \<le> 100"
proof -
  have "0 \<le> int (rng w 0) mod 100" and "int (rng w 0) mod 100 < 100"
    by simp_all
  then show ?thesis
    by (simp add: generate_pallet_data_def random_randint_def take_entropy_def Let_def
        split_beta)
qed

lemma simulate_hardware_data_motors:
  "raw_motors (fst (simulate_hardware_data w)) =
     [fst (generate_motor_data 1 w),
      fst (generate_motor_data 2 (snd (generate_motor_data 1 w))),
      fst (generate_motor_data 3 (snd (generate_motor_data 2 (snd (generate_motor_data 1 w)))))]"
  by (simp add: simulate_hardware_data_def range_1_4 Let_def split_beta)

lemma simulate_hardware_data_pallet:
  "\<exists>w'. raw_pallet (fst (simulate_hardware_data w)) = fst (generate_pallet_data w')"
  by (auto simp: simulate_hardware_data_def Let_def split_beta)

lemma simulate_hardware_data_centroid:
  "\<exists>w'. raw_centroid (fst (simulate_hardware_data w)) = fst (generate_centroid_data w')"
  by (auto simp: simulate_hardware_data_def Let_def split_beta)

text \<open>
  C3. Every raw reading of the simulator has exactly three motor readings, with the
  identifiers \<open>1\<close>, \<open>2\<close>, \<open>3\<close> in this order. In every motor reading the velocity
  is in \<open>[130, 160]\<close>, \<open>cm\<close> in \<open>[10, 30]\<close> and the temperature in \<open>[65, 80]\<close>, and
  each is a number with one decimal, as a float: the binary64 value nearest to \<open>k / 10\<close>
  for an integer \<open>k\<close>. The pallet identifier is an integer from \<open>1\<close> to \<open>100\<close>. Each
  orientation component is in \<open>[- 1, 1]\<close> and is the binary64 value nearest to
  \<open>k / 100\<close> for an integer \<open>k\<close>. This holds for every state of the generator.
\<close>

theorem simulate_hardware_data_ranges:
  "map raw_id (raw_motors (fst (simulate_hardware_data w))) = [1, 2, 3] \<and>
   (\<forall>m \<in> set (raw_motors (fst (simulate_hardware_data w))).
      130 \<le> raw_velocity m \<and> raw_velocity m \<le> 160 \<and>
      (\<exists>k :: int. raw_velocity m = fl (of_int k / 10)) \<and>
      10 \<le> cm m \<and> cm m \<le> 30 \<and>
      (\<exists>k :: int. cm m = fl (of_int k / 10)) \<and>
      65 \<le> raw_temperature m \<and> raw_temperature m \<le> 80 \<and>
      (\<exists>k :: int. raw_temperature m = fl (of_int k / 10))) \<and>
   1 \<le> id_pallet (raw_pallet (fst (simulate_hardware_data w))) \<and>
   id_pallet (raw_pallet (fst (simulate_hardware_data w))) \<le> 100 \<and>
   (\<forall>c \<in> {centroid_x (raw_centroid (fst (simulate_hardware_data w))),
            centroid_y (raw_centroid (fst (simulate_hardware_data w))),
            centroid_z (raw_centroid (fst (simulate_hardware_data w)))}.
      - 1 \<le> c \<and> c \<le> 1 \<and> (\<exists>k :: int. c = fl (of_int k / 100)))"
proof -
  have ids: "map raw_id (raw_motors (fst (simulate_hardware_data w))) = [1, 2, 3]"
    by (simp add: simulate_hardware_data_motors generate_motor_data_ranges)
  have ms: "\<forall>m \<in> set (raw_motors (fst (simulate_hardware_data w))).
      130 \<le> raw_velocity m \<and> raw_velocity m \<le> 160 \<and>
      (\<exists>k :: int. raw_velocity m = fl (of_int k / 10)) \<and>
      10 \<le> cm m \<and> cm m \<le> 30 \<and>
      (\<exists>k :: int. cm m = fl (of_int k / 10)) \<and>
      65 \<le> raw_temperature m \<and> raw_temperature m \<le> 80 \<and>
      (\<exists>k :: int. raw_temperature m = fl (of_int k / 10))"
    unfolding simulate_hardware_data_motors
    using generate_motor_data_ranges by simp
  obtain wp where p: "raw_pallet (fst (simulate_hardware_data w)) = fst (generate_pallet_data wp)"
    using simulate_hardware_data_pallet by blast
  obtain wc where c: "raw_centroid (fst (simulate_hardware_data w)) =
      fst (generate_centroid_data wc)"
    using simulate_hardware_data_centroid by blast
  have pal: "1 \<le> id_pallet (raw_pallet (fst (simulate_hardware_data w))) \<and>
      id_pallet (raw_pallet (fst (simulate_hardware_data w))) \<le> 100"
    unfolding p by (rule generate_pallet_data_range)
  have cen: "\<forall>c \<in> {centroid_x (raw_centroid (fst (simulate_hardware_data w))),
            centroid_y (raw_centroid (fst (simulate_hardware_data w))),
            centroid_z (raw_centroid (fst (simulate_hardware_data w)))}.
      - 1 \<le> c \<and> c \<le> 1 \<and> (\<exists>k :: int. c = fl (of_int k / 100))"
    unfolding c using generate_centroid_data_ranges [of wc] by simp
  from ids ms pal cen show ?thesis by blast
qed

theorem simulate_hardware_data_ranges_witness:
  "map raw_id (raw_motors (fst (simulate_hardware_data example_world))) = [1, 2, 3] \<and>
   130 \<le> raw_velocity (raw_motors (fst (simulate_hardware_data example_world)) ! 0) \<and>
   raw_velocity (raw_motors (fst (simulate_hardware_data example_world)) ! 0) \<le> 160 \<and>
   10 \<le> cm (raw_motors (fst (simulate_hardware_data example_world)) ! 2) \<and>
   cm (raw_motors (fst (simulate_hardware_data example_world)) ! 2) \<le> 30 \<and>
   id_pallet (raw_pallet (fst (simulate_hardware_data example_world))) = 1 \<and>
   - 1 \<le> centroid_y (raw_centroid (fst (simulate_hardware_data example_world))) \<and>
   centroid_y (raw_centroid (fst (simulate_hardware_data example_world))) \<le> 1"
proof -
  note t = simulate_hardware_data_ranges [of example_world]
  have m0: "raw_motors (fst (simulate_hardware_data example_world)) ! 0 \<in>
      set (raw_motors (fst (simulate_hardware_data example_world)))"
    and m2: "raw_motors (fst (simulate_hardware_data example_world)) ! 2 \<in>
      set (raw_motors (fst (simulate_hardware_data example_world)))"
    by (simp_all add: simulate_hardware_data_motors)
  have p: "id_pallet (raw_pallet (fst (simulate_hardware_data example_world))) = 1"
    by (simp add: simulate_hardware_data_def Let_def split_beta generate_pallet_data_def
        random_randint_def take_entropy_def generate_motor_data_world range_1_4
        example_world_def)
  from t m0 m2 p show ?thesis by blast
qed

section \<open>Reading the current data\<close>

text \<open>
  C4. When the handler of \<open>GET /api/data\<close> finds no current snapshot, it runs one
  cycle before it answers: the state it leaves is the state one call of \<open>update_data\<close>
  leaves, the answer is the snapshot of that cycle and not absent, and the history has
  gained that cycle's record and nothing else. When a current snapshot is there, the
  handler answers with it and leaves the state as it was: no cycle runs.
\<close>

theorem get_robot_data_bootstrap:
  "(current_data (manager s) = None \<longrightarrow>
      get_robot_data s = (Return (Some (produced_snapshot s)), snd (update_data s)) \<and>
      fst (update_data s) = Return () \<and>
      current_data (manager (snd (update_data s))) = Some (produced_snapshot s) \<and>
      historical_data (manager (snd (update_data s))) =
        historical_data (manager s) @ [produced_record s]) \<and>
   (\<forall>d. current_data (manager s) = Some d \<longrightarrow> get_robot_data s = (Return (Some d), s))"
proof -
  obtain s' where u: "update_data s = (Return (), s')"
    using update_data_returns [of s] by (cases "update_data s") auto
  have s': "s' = snd (update_data s)" by (simp add: u)
  have "current_data (manager s) = None \<Longrightarrow>
          get_robot_data s = (Return (Some (produced_snapshot s)), snd (update_data s))"
    using update_data_manager [of s]
    by (simp add: get_robot_data_def get_current_data_def u)
  moreover have "\<forall>d. current_data (manager s) = Some d \<longrightarrow>
                   get_robot_data s = (Return (Some d), s)"
    by (simp add: get_robot_data_def get_current_data_def)
  ultimately show ?thesis
    by (simp add: update_data_manager update_data_returns)
qed

theorem get_robot_data_bootstrap_witness:
  "current_data (manager example_state) = None \<and>
   get_robot_data example_state =
     (Return (Some (produced_snapshot example_state)), snd (update_data example_state)) \<and>
   historical_data (manager (snd (update_data example_state))) =
     [produced_record example_state] \<and>
   get_robot_data (snd (update_data example_state)) =
     (Return (Some (produced_snapshot example_state)), snd (update_data example_state))"
proof -
  have c: "current_data (manager example_state) = None"
    and h: "historical_data (manager example_state) = []"
    by (simp_all add: example_state_def)
  from get_robot_data_bootstrap [of example_state] c h
  have first: "get_robot_data example_state =
      (Return (Some (produced_snapshot example_state)), snd (update_data example_state))"
    and cur: "current_data (manager (snd (update_data example_state))) =
      Some (produced_snapshot example_state)"
    and hist: "historical_data (manager (snd (update_data example_state))) =
      [produced_record example_state]"
    by simp_all
  from get_robot_data_bootstrap [of "snd (update_data example_state)"] cur
  have "get_robot_data (snd (update_data example_state)) =
      (Return (Some (produced_snapshot example_state)), snd (update_data example_state))"
    by simp
  with c first hist show ?thesis by simp
qed

section \<open>Failing writes\<close>

text \<open>
  C5. Whatever the two writes of a cycle do, \<open>update_data\<close> returns: no exception
  leaves it. The current snapshot is the new one and the history ends with the new
  record, also when a write failed. A write that fails is reported by a line that the
  persistence step itself prints, \<open>Erro_current_save\<close> for the snapshot file and
  \<open>Erro_hist_save\<close> for the history file, in place of the line of a successful write.
\<close>

theorem update_data_survives_write_failure:
  "fst (update_data s) = Return () \<and>
   current_data (manager (snd (update_data s))) = Some (produced_snapshot s) \<and>
   historical_data (manager (snd (update_data s))) =
     historical_data (manager s) @ [produced_record s] \<and>
   console (world (snd (update_data s))) =
     console (world s) @
     [if write_faults (world s) 0 = Write_ok
      then Info_current_saved (data_path (manager s))
      else Erro_current_save OSError,
      if write_faults (world s) (Suc 0) = Write_ok
      then Info_hist_saved (Suc (length (historical_data (manager s)))) (hist_data_path (manager s))
      else Erro_hist_save OSError,
      Info_updated (clock (world s) (Suc (Suc 0)))]"
  by (simp add: update_data_returns update_data_manager update_data_console)

theorem update_data_survives_write_failure_witness:
  "write_faults (world example_state) 0 = Dump_fails \<and>
   write_faults (world example_state) (Suc 0) = Dump_fails \<and>
   fst (update_data example_state) = Return () \<and>
   current_data (manager (snd (update_data example_state))) =
     Some (produced_snapshot example_state) \<and>
   historical_data (manager (snd (update_data example_state))) =
     [produced_record example_state] \<and>
   console (world (snd (update_data example_state))) =
     [Erro_current_save OSError, Erro_hist_save OSError,
      Info_updated ''2026-01-01T00:00:00+00:00'']"
  using update_data_survives_write_failure [of example_state]
  by (simp add: example_state_def example_world_def)

section \<open>Construction\<close>

lemma load_current_from_disk_stat_fails:
  assumes "stat_fails (world s) (data_path (manager s))"
  shows "load_current_from_disk s = (Raise OSError, s)"
  using assms by (simp add: load_current_from_disk_def path_exists_def)

lemma load_historical_from_disk_stat_fails:
  assumes "stat_fails (world s) (hist_data_path (manager s))"
  shows "load_historical_from_disk s = (Raise OSError, s)"
  using assms by (simp add: load_historical_from_disk_def path_exists_def)

lemma load_current_from_disk_returns:
  assumes "\<not> stat_fails (world s) (data_path (manager s))"
  shows "fst (load_current_from_disk s) = Return ()"
  using assms
  by (cases "fs (world s) (data_path (manager s))")
     (auto simp: load_current_from_disk_def path_exists_def read_snapshot_def
        split: sum.splits elim: decode_snapshot.elims)

lemma load_historical_from_disk_returns:
  assumes "\<not> stat_fails (world s) (hist_data_path (manager s))"
  shows "fst (load_historical_from_disk s) = Return ()"
  using assms
  by (cases "fs (world s) (hist_data_path (manager s))")
     (auto simp: load_historical_from_disk_def path_exists_def read_history_def
        split: sum.splits elim: decode_history.elims)

lemma load_current_from_disk_eq:
  assumes "\<not> stat_fails (world s) (data_path (manager s))"
  shows "snd (load_current_from_disk s) =
     (case fs (world s) (data_path (manager s)) of
        None \<Rightarrow> s
      | Some doc \<Rightarrow>
          (case decode_snapshot doc of
             Inr d \<Rightarrow> s\<lparr>manager := (manager s)\<lparr>current_data := Some d\<rparr>,
                       world := print (Info_current_loaded (data_path (manager s))) (world s)\<rparr>
           | Inl e \<Rightarrow> s\<lparr>world := print (Aviso_current_load e) (world s)\<rparr>))"
  using assms
  by (cases "fs (world s) (data_path (manager s))")
     (auto simp: load_current_from_disk_def path_exists_def read_snapshot_def
        split: sum.splits elim: decode_snapshot.elims)

lemma load_historical_from_disk_eq:
  assumes "\<not> stat_fails (world s) (hist_data_path (manager s))"
  shows "snd (load_historical_from_disk s) =
     (case fs (world s) (hist_data_path (manager s)) of
        None \<Rightarrow> s
      | Some doc \<Rightarrow>
          (case decode_history doc of
             Inr h \<Rightarrow> s\<lparr>manager := (manager s)\<lparr>historical_data := h\<rparr>,
                       world := print (Info_hist_loaded (length h)) (world s)\<rparr>
           | Inl e \<Rightarrow> s\<lparr>world := print (Aviso_hist_load e) (world s)\<rparr>))"
  using assms
  by (cases "fs (world s) (hist_data_path (manager s))")
     (auto simp: load_historical_from_disk_def path_exists_def read_history_def
        split: sum.splits elim: decode_history.elims)

lemma load_current_from_disk_frame:
  "initialized (manager (snd (load_current_from_disk s))) = initialized (manager s) \<and>
   historical_data (manager (snd (load_current_from_disk s))) = historical_data (manager s) \<and>
   hist_data_path (manager (snd (load_current_from_disk s))) = hist_data_path (manager s) \<and>
   stat_fails (world (snd (load_current_from_disk s))) = stat_fails (world s)"
proof (cases "stat_fails (world s) (data_path (manager s))")
  case True
  then show ?thesis by (simp add: load_current_from_disk_stat_fails)
next
  case False
  then show ?thesis
    by (simp add: load_current_from_disk_eq print_def split: option.splits sum.splits)
qed

lemma load_historical_from_disk_frame:
  "initialized (manager (snd (load_historical_from_disk s))) = initialized (manager s)"
proof (cases "stat_fails (world s) (hist_data_path (manager s))")
  case True
  then show ?thesis by (simp add: load_historical_from_disk_stat_fails)
next
  case False
  then show ?thesis
    by (simp add: load_historical_from_disk_eq print_def split: option.splits sum.splits)
qed

lemma DataManager_init_fresh:
  assumes "\<not> initialized (manager s)" and "mkdir_ok (world s)"
    and "\<not> stat_fails (world s) ''data/robot_data.json''"
    and "\<not> stat_fails (world s) ''data/hist_data.json''"
  shows "DataManager_init s =
     (Return (),
      snd (load_historical_from_disk (snd (load_current_from_disk
        (s\<lparr>manager := (manager s)
             \<lparr>current_data := None, historical_data := [],
              data_path := ''data/robot_data.json'',
              hist_data_path := ''data/hist_data.json'',
              initialized := True\<rparr>\<rparr>)))))"
proof -
  define s1 where "s1 = s\<lparr>manager := (manager s)
             \<lparr>current_data := None, historical_data := [],
              data_path := ''data/robot_data.json'',
              hist_data_path := ''data/hist_data.json'',
              initialized := True\<rparr>\<rparr>"
  have c: "fst (load_current_from_disk s1) = Return ()"
    using assms(3) by (intro load_current_from_disk_returns) (simp add: s1_def)
  have "\<not> stat_fails (world (snd (load_current_from_disk s1)))
            (hist_data_path (manager (snd (load_current_from_disk s1))))"
    using assms(4) by (simp add: load_current_from_disk_frame) (simp add: s1_def)
  then have h: "fst (load_historical_from_disk (snd (load_current_from_disk s1))) = Return ()"
    by (rule load_historical_from_disk_returns)
  have split_pair: "\<And>(p :: unit result \<times> State) f g.
      fst p = Return () \<Longrightarrow>
      (case p of (Return u, s') \<Rightarrow> f s' | (Raise e, s') \<Rightarrow> g e s') = f (snd p)"
    by (auto split: prod.splits result.splits)
  have "DataManager_init s = load_historical_from_disk (snd (load_current_from_disk s1))"
    using assms(1,2) c by (simp add: DataManager_init_def Let_def split_pair s1_def)
  also have "\<dots> = (Return (), snd (load_historical_from_disk (snd (load_current_from_disk s1))))"
    using h by (metis prod.collapse)
  finally show ?thesis by (simp add: s1_def)
qed

lemma DataManager_new_fresh:
  assumes "instance rt = None"
  shows "DataManager_new rt =
     (next_addr rt,
      rt\<lparr>heap := (heap rt)(next_addr rt :=
             \<lparr>initialized = False, current_data = None, historical_data = [],
              data_path = [], hist_data_path = []\<rparr>),
         next_addr := Suc (next_addr rt), instance := Some (next_addr rt)\<rparr>)"
  using assms by (simp add: DataManager_new_def Let_def)

lemma DataManager_call_fresh:
  assumes "instance rt = None" and "mkdir_ok (env rt)"
    and "\<not> stat_fails (env rt) ''data/robot_data.json''"
    and "\<not> stat_fails (env rt) ''data/hist_data.json''"
  shows "DataManager_call rt =
     (Return (next_addr rt),
      rt\<lparr>heap := (heap rt)(next_addr rt :=
             manager (snd (load_historical_from_disk (snd (load_current_from_disk
               \<lparr>manager = \<lparr>initialized = True, current_data = None, historical_data = [],
                            data_path = ''data/robot_data.json'',
                            hist_data_path = ''data/hist_data.json''\<rparr>,
                world = env rt\<rparr>))))),
         next_addr := Suc (next_addr rt), instance := Some (next_addr rt),
         env := world (snd (load_historical_from_disk (snd (load_current_from_disk
               \<lparr>manager = \<lparr>initialized = True, current_data = None, historical_data = [],
                            data_path = ''data/robot_data.json'',
                            hist_data_path = ''data/hist_data.json''\<rparr>,
                world = env rt\<rparr>))))\<rparr>)"
proof -
  define s0 :: State where
    "s0 = \<lparr>manager = \<lparr>initialized = False, current_data = None, historical_data = [],
                       data_path = [], hist_data_path = []\<rparr>,
           world = env rt\<rparr>"
  have init: "DataManager_init s0 =
     (Return (),
      snd (load_historical_from_disk (snd (load_current_from_disk
        (s0\<lparr>manager := (manager s0)
             \<lparr>current_data := None, historical_data := [],
              data_path := ''data/robot_data.json'',
              hist_data_path := ''data/hist_data.json'',
              initialized := True\<rparr>\<rparr>)))))"
    using assms by (intro DataManager_init_fresh) (simp_all add: s0_def)
  have call: "DataManager_call rt =
     (case DataManager_init s0 of
        (r, s) \<Rightarrow>
          (case r of Return u \<Rightarrow> Return (next_addr rt) | Raise e \<Rightarrow> Raise e,
           rt\<lparr>heap := (heap rt)(next_addr rt := manager s),
              next_addr := Suc (next_addr rt), instance := Some (next_addr rt),
              env := world s\<rparr>))"
    by (simp add: DataManager_call_def DataManager_new_fresh [OF assms(1)] Let_def s0_def
        split: prod.splits)
  show ?thesis
    unfolding call init by (simp add: s0_def)
qed

lemma DataManager_call_mkdir_fails:
  assumes "instance rt = None" and "\<not> mkdir_ok (env rt)"
  shows "fst (DataManager_call rt) = Raise OSError"
  using assms
  by (simp add: DataManager_call_def DataManager_new_fresh DataManager_init_def Let_def)




section \<open>The background loop\<close>

lemma loop_body_not_cancelled:
  assumes "\<not> cancelled i" and "\<forall>s e s'. cycle s = (Raise e, s') \<longrightarrow> is_Exception e"
  shows "loop_body cycle cancelled i s =
           (iteration_steps (fst (cycle s)), Return (), snd (cycle s), Suc i)"
proof (cases "cycle s")
  case (Pair r s1)
  show ?thesis
  proof (cases r)
    case (Return u)
    with Pair assms(1) show ?thesis
      by (simp add: loop_body_def asyncio_sleep_def)
  next
    case (Raise e)
    with Pair assms(2) have "is_Exception e" by blast
    with Pair Raise assms(1) show ?thesis
      by (simp add: loop_body_def asyncio_sleep_def)
  qed
qed

lemma loop_body_cancelled:
  assumes "cancelled i" and "\<forall>s e s'. cycle s = (Raise e, s') \<longrightarrow> is_Exception e"
  shows "fst (snd (loop_body cycle cancelled i s)) = Raise CancelledError \<and>
         fst (snd (snd (loop_body cycle cancelled i s))) = snd (cycle s)"
proof (cases "cycle s")
  case (Pair r s1)
  show ?thesis
  proof (cases r)
    case (Return u)
    with Pair assms(1) show ?thesis
      by (simp add: loop_body_def asyncio_sleep_def)
  next
    case (Raise e)
    with Pair assms(2) have "is_Exception e" by blast
    with Pair Raise assms(1) show ?thesis
      by (simp add: loop_body_def asyncio_sleep_def)
  qed
qed

lemma while_true_not_cancelled:
  assumes "\<forall>s e s'. cycle s = (Raise e, s') \<longrightarrow> is_Exception e"
  shows "(\<forall>j < n. \<not> cancelled (i + j)) \<Longrightarrow>
         while_true cycle cancelled n i s =
           (concat (map iteration_steps (cycle_results cycle n s)), Running,
            cycle_state cycle n s)"
proof (induction n arbitrary: i s)
  case 0
  show ?case by simp
next
  case (Suc n)
  from Suc.prems have now: "\<not> cancelled i" by (metis add.right_neutral zero_less_Suc)
  have later: "\<forall>j < n. \<not> cancelled (Suc i + j)"
  proof (intro allI impI)
    fix j assume "j < n"
    then have "Suc j < Suc n" by simp
    with Suc.prems have "\<not> cancelled (i + Suc j)" by blast
    then show "\<not> cancelled (Suc i + j)" by simp
  qed
  show ?case
    by (simp add: loop_body_not_cancelled [where cancelled = cancelled and i = i, OF now assms] Suc.IH [OF later])
qed

lemma while_true_cancelled:
  assumes "\<forall>s e s'. cycle s = (Raise e, s') \<longrightarrow> is_Exception e"
  shows "(\<forall>j < k. \<not> cancelled (i + j)) \<Longrightarrow> cancelled (i + k) \<Longrightarrow> k < n \<Longrightarrow>
         fst (snd (while_true cycle cancelled n i s)) = Left CancelledError \<and>
         snd (snd (while_true cycle cancelled n i s)) = cycle_state cycle (Suc k) s"
proof (induction k arbitrary: i s n)
  case 0
  then obtain m where n: "n = Suc m" by (cases n) auto
  from 0 have c: "cancelled i" by simp
  from loop_body_cancelled [where cancelled = cancelled and i = i, OF c assms, of s] show ?case
    by (auto simp: n split: prod.splits result.splits)
next
  case (Suc k)
  then obtain m where n: "n = Suc m" and km: "k < m" by (cases n) auto
  from Suc.prems(1) have now: "\<not> cancelled i" by (metis add.right_neutral zero_less_Suc)
  have later: "\<forall>j < k. \<not> cancelled (Suc i + j)"
  proof (intro allI impI)
    fix j assume "j < k"
    then have "Suc j < Suc k" by simp
    with Suc.prems(1) have "\<not> cancelled (i + Suc j)" by blast
    then show "\<not> cancelled (Suc i + j)" by simp
  qed
  from Suc.prems(2) have c: "cancelled (Suc i + k)" by simp
  from Suc.IH [OF later c km, of "snd (cycle s)"] show ?case
    by (simp add: n loop_body_not_cancelled [where cancelled = cancelled and i = i, OF now assms] split_beta)
qed

lemma flaky_cycle_exceptions:
  "\<forall>s e s'. flaky_cycle s = (Raise e, s') \<longrightarrow> is_Exception e"
  by (auto simp: flaky_cycle_def split: if_splits)

lemma update_data_exceptions:
  "\<forall>s e s'. update_data s = (Raise e, s') \<longrightarrow> is_Exception e"
  using update_data_returns by (metis fst_conv result.distinct(1))

text \<open>
  C7. Let the cycle raise nothing but instances of \<open>Exception\<close>. As long as the task
  is not cancelled the loop goes on: after any number \<open>n\<close> of iterations it is still
  running, it has called the cycle \<open>n\<close> times, and its steps are, after the start
  line, for each iteration the call of the cycle, then, if that call raised, the line
  that logs the exception, then the wait of \<open>2\<close>. So the first thing the loop does is a
  cycle, every two cycles are separated by one wait of \<open>2\<close>, and a cycle that fails
  is logged, waited after and followed by the next. When the task is cancelled during
  the wait of iteration \<open>k + 1\<close>, the loop ends there with \<open>CancelledError\<close>, after
  \<open>k + 1\<close> cycles.
\<close>

theorem data_update_loop_keeps_going:
  assumes "\<forall>s e s'. cycle s = (Raise e, s') \<longrightarrow> is_Exception e"
  shows "(\<forall>n. (\<forall>j < n. \<not> cancelled j) \<longrightarrow>
            data_update_loop cycle cancelled n s =
              (Logged Info_loop_start # concat (map iteration_steps (cycle_results cycle n s)),
               Running, cycle_state cycle n s)) \<and>
         (\<forall>k n. (\<forall>j < k. \<not> cancelled j) \<and> cancelled k \<and> k < n \<longrightarrow>
            fst (snd (data_update_loop cycle cancelled n s)) = Left CancelledError \<and>
            snd (snd (data_update_loop cycle cancelled n s)) = cycle_state cycle (Suc k) s)"
proof (intro conjI allI impI)
  fix n assume "\<forall>j < n. \<not> cancelled j"
  then have "\<forall>j < n. \<not> cancelled (0 + j)" by simp
  from while_true_not_cancelled [OF assms this, of s]
  show "data_update_loop cycle cancelled n s =
          (Logged Info_loop_start # concat (map iteration_steps (cycle_results cycle n s)),
           Running, cycle_state cycle n s)"
    by (simp add: data_update_loop_def)
next
  fix k n assume a: "(\<forall>j < k. \<not> cancelled j) \<and> cancelled k \<and> k < n"
  then have 1: "\<forall>j < k. \<not> cancelled (0 + j)" and 2: "cancelled (0 + k)" and 3: "k < n"
    by simp_all
  from while_true_cancelled [OF assms 1 2 3, of s]
  show "fst (snd (data_update_loop cycle cancelled n s)) = Left CancelledError"
    and "snd (snd (data_update_loop cycle cancelled n s)) = cycle_state cycle (Suc k) s"
    by (simp_all add: data_update_loop_def split_beta)
qed

theorem data_update_loop_keeps_going_witness:
  "data_update_loop flaky_cycle (\<lambda>i. False) 3 0 =
     ([Logged Info_loop_start,
       Cycle, Logged (Erro_loop ValidationError), Wait 2,
       Cycle, Wait 2,
       Cycle, Logged (Erro_loop ValidationError), Wait 2], Running, 3) \<and>
   fst (snd (data_update_loop flaky_cycle (\<lambda>i. i = 1) 5 0)) = Left CancelledError \<and>
   snd (snd (data_update_loop flaky_cycle (\<lambda>i. i = 1) 5 0)) = 2 \<and>
   fst (data_update_loop update_data (\<lambda>i. False) 2 example_state) =
     [Logged Info_loop_start, Cycle, Wait 2, Cycle, Wait 2] \<and>
   fst (snd (data_update_loop update_data (\<lambda>i. False) 2 example_state)) = Running"
proof -
  have c: "data_update_loop update_data (\<lambda>i. False) 2 example_state =
     (Logged Info_loop_start #
        concat (map iteration_steps (cycle_results update_data 2 example_state)),
      Running, cycle_state update_data 2 example_state)"
    using data_update_loop_keeps_going [OF update_data_exceptions, of "\<lambda>i. False" example_state]
    by simp
  have a: "data_update_loop flaky_cycle (\<lambda>i. False) 3 0 =
     (Logged Info_loop_start # concat (map iteration_steps (cycle_results flaky_cycle 3 0)),
      Running, cycle_state flaky_cycle 3 0)"
    using data_update_loop_keeps_going [OF flaky_cycle_exceptions, of "\<lambda>i. False" 0]
    by simp
  have b: "fst (snd (data_update_loop flaky_cycle (\<lambda>i. i = 1) 5 0)) = Left CancelledError \<and>
        snd (snd (data_update_loop flaky_cycle (\<lambda>i. i = 1) 5 0)) =
          cycle_state flaky_cycle (Suc 1) 0"
    using data_update_loop_keeps_going [OF flaky_cycle_exceptions, of "\<lambda>i. i = 1" 0]
    by simp
  show ?thesis
    unfolding a c using b
    by (simp add: eval_nat_numeral flaky_cycle_def update_data_returns)
qed

section \<open>Reading is idempotent\<close>

text \<open>
  C8. While a current snapshot is there, reading changes nothing: \<open>get_current_data\<close>
  returns the snapshot, the handler returns it and leaves the whole state (current
  snapshot and history with it) as it was, and so any number of calls of the handler in
  a row all give the same snapshot and end in the state they began in.
\<close>

theorem get_robot_data_idempotent:
  assumes "current_data (manager s) = Some d"
  shows "get_current_data s = Some d \<and>
         get_robot_data s = (Return (Some d), s) \<and>
         get_robot_data_times n s = (replicate n (Return (Some d)), s)"
proof -
  have one: "get_robot_data s = (Return (Some d), s)"
    using assms by (simp add: get_robot_data_def get_current_data_def)
  have "get_robot_data_times n s = (replicate n (Return (Some d)), s)"
    by (induction n) (simp_all add: one)
  with one assms show ?thesis by (simp add: get_current_data_def)
qed

theorem get_robot_data_idempotent_witness:
  "current_data (manager (snd (update_data example_state))) =
     Some (produced_snapshot example_state) \<and>
   get_robot_data_times 3 (snd (update_data example_state)) =
     (replicate 3 (Return (Some (produced_snapshot example_state))),
      snd (update_data example_state))"
proof -
  have c: "current_data (manager (snd (update_data example_state))) =
      Some (produced_snapshot example_state)"
    by (simp add: update_data_manager)
  from get_robot_data_idempotent [OF c, of 3] c show ?thesis
    by blast
qed

section \<open>The two timestamps of a record\<close>

text \<open>
  C9, as amended. The record that a cycle appends carries in \<open>timestamp_coleta\<close> a
  clock reading of its own, the one \<open>add_to_historical\<close> takes: the second reading of
  the cycle. The pallet inside the record carries the first reading, taken by
  \<open>generate_pallet_data\<close>. The two strings differ exactly when the clock gave two
  different readings; nothing in the cycle compares them.
\<close>

theorem timestamp_coleta_is_second_reading:
  "historical_data (manager (snd (update_data s))) =
     historical_data (manager s) @ [produced_record s] \<and>
   timestamp_coleta (produced_record s) = clock (world s) (Suc 0) \<and>
   map timestamp (pallets (data (produced_record s))) = [clock (world s) 0] \<and>
   (timestamp_coleta (produced_record s) \<noteq> timestamp (hd (pallets (data (produced_record s))))
      \<longleftrightarrow> clock (world s) (Suc 0) \<noteq> clock (world s) 0)"
proof -
  have "data (produced_record s) = produced_snapshot s" by (simp add: produced_record_def)
  moreover from produced_snapshot_pallets [of s]
  have "timestamp (hd (pallets (produced_snapshot s))) = clock (world s) 0"
    by (cases "pallets (produced_snapshot s)") auto
  ultimately show ?thesis
    by (simp add: update_data_manager produced_record_timestamp produced_snapshot_pallets)
qed

text \<open>On a clock that gives the same reading twice, the record's timestamp is the
  pallet's: the claim as stated, that the two are distinct in every cycle, fails.\<close>

theorem timestamp_coleta_distinct_counterexample:
  "timestamp_coleta (last (historical_data (manager (snd (update_data example_state))))) =
   timestamp (hd (pallets (data (last (historical_data (manager (snd (update_data example_state))))))))"
proof -
  have same: "clock (world example_state) (Suc 0) = clock (world example_state) 0"
    by (simp add: example_state_def example_world_def)
  have last: "last (historical_data (manager (snd (update_data example_state)))) =
                produced_record example_state"
    by (simp add: update_data_manager)
  have "timestamp (hd (pallets (data (produced_record example_state)))) =
          clock (world example_state) 0"
    using produced_snapshot_pallets [of example_state]
    by (cases "pallets (produced_snapshot example_state)") (auto simp: produced_record_def)
  then show ?thesis
    by (simp only: last produced_record_timestamp same)
qed

section \<open>One manager\<close>

lemma DataManager_call_again:
  assumes "instance rt = Some a" and "initialized (heap rt a)"
  shows "DataManager_call rt = (Return a, rt)"
  using assms by (simp add: DataManager_call_def DataManager_new_def DataManager_init_def)

lemma DataManager_init_initialized: "initialized (manager (snd (DataManager_init s)))"
proof (cases "initialized (manager s)")
  case True
  then show ?thesis by (simp add: DataManager_init_def)
next
  case False
  define s1 where "s1 = s\<lparr>manager := (manager s)
             \<lparr>current_data := None, historical_data := [],
              data_path := ''data/robot_data.json'',
              hist_data_path := ''data/hist_data.json'',
              initialized := True\<rparr>\<rparr>"
  have s1: "initialized (manager s1)" by (simp add: s1_def)
  have c: "initialized (manager (snd (load_current_from_disk s1)))"
    using s1 by (simp add: load_current_from_disk_frame)
  then have h: "initialized (manager (snd (load_historical_from_disk
       (snd (load_current_from_disk s1)))))"
    by (simp add: load_historical_from_disk_frame)
  have "DataManager_init s =
     (if \<not> mkdir_ok (world s1) then (Raise OSError, s1)
      else case load_current_from_disk s1 of
             (Raise e, s2) \<Rightarrow> (Raise e, s2)
           | (Return u, s2) \<Rightarrow> load_historical_from_disk s2)"
    using False by (simp add: DataManager_init_def Let_def s1_def)
  then show ?thesis
    using s1 c h
    by (cases "load_current_from_disk s1")
       (auto split: result.splits)
qed

lemma DataManager_call_first:
  assumes "instance rt = None"
  shows "instance (snd (DataManager_call rt)) = Some (next_addr rt)"
    and "initialized (heap (snd (DataManager_call rt)) (next_addr rt))"
  using assms DataManager_init_initialized
    [of "\<lparr>manager = \<lparr>initialized = False, current_data = None, historical_data = [],
                       data_path = [], hist_data_path = []\<rparr>, world = env rt\<rparr>"]
  by (simp_all add: DataManager_call_def DataManager_new_fresh Let_def split_beta)

lemma update_data_times_initialized:
  "initialized (manager (snd (update_data_times n s))) = initialized (manager s)"
  by (induction n)
     (simp_all del: update_data_times.simps(2) add: update_data_times_Suc update_data_manager)

lemma update_data_times_paths:
  "data_path (manager (snd (update_data_times n s))) = data_path (manager s) \<and>
   hist_data_path (manager (snd (update_data_times n s))) = hist_data_path (manager s)"
  by (induction n)
     (simp_all del: update_data_times.simps(2) add: update_data_times_Suc update_data_manager)

text \<open>
  C10. After the first call of \<open>DataManager()\<close>, the class attribute holds the address
  of the object that call made, and that object is marked initialized. Every call made
  while this is so (nothing in the program unsets either) returns that same address
  and changes nothing at all: the heap, and with it the current snapshot, the history
  and the two paths of the object, is as before the call. In particular this is so
  after any number of cycles have run on the object.
\<close>

theorem DataManager_is_singleton:
  assumes "instance rt0 = None"
  shows "instance (snd (DataManager_call rt0)) = Some (next_addr rt0) \<and>
         initialized (heap (snd (DataManager_call rt0)) (next_addr rt0)) \<and>
         (\<forall>rt a. instance rt = Some a \<and> initialized (heap rt a) \<longrightarrow>
                  DataManager_call rt = (Return a, rt)) \<and>
         (\<forall>n. DataManager_call (update_data_at n (next_addr rt0) (snd (DataManager_call rt0))) =
                (Return (next_addr rt0),
                 update_data_at n (next_addr rt0) (snd (DataManager_call rt0))))"
proof -
  let ?a = "next_addr rt0" and ?rt1 = "snd (DataManager_call rt0)"
  have i: "instance ?rt1 = Some ?a" and t: "initialized (heap ?rt1 ?a)"
    using assms by (rule DataManager_call_first)+
  have "DataManager_call (update_data_at n ?a ?rt1) = (Return ?a, update_data_at n ?a ?rt1)" for n
  proof (rule DataManager_call_again)
    show "instance (update_data_at n ?a ?rt1) = Some ?a"
      using i by (simp add: update_data_at_def Let_def)
    show "initialized (heap (update_data_at n ?a ?rt1) ?a)"
      using t by (simp add: update_data_at_def Let_def update_data_times_initialized)
  qed
  with i t show ?thesis by (simp add: DataManager_call_again)
qed

theorem DataManager_is_singleton_witness:
  "instance example_runtime = None \<and>
   fst (DataManager_call example_runtime) = Return 0 \<and>
   DataManager_call (update_data_at 2 0 (snd (DataManager_call example_runtime))) =
     (Return 0, update_data_at 2 0 (snd (DataManager_call example_runtime))) \<and>
   length (historical_data
     (heap (update_data_at 2 0 (snd (DataManager_call example_runtime))) 0)) = 3 \<and>
   data_path (heap (update_data_at 2 0 (snd (DataManager_call example_runtime))) 0) =
     ''data/robot_data.json''"
proof -
  have i: "instance example_runtime = None" and m: "mkdir_ok (env example_runtime)"
    and n: "next_addr example_runtime = 0"
    and c: "\<not> stat_fails (env example_runtime) ''data/robot_data.json''"
    and f: "\<not> stat_fails (env example_runtime) ''data/hist_data.json''"
    by (simp_all add: example_runtime_def example_world_def)
  have h: "historical_data (heap (snd (DataManager_call example_runtime)) 0) = [example_record]"
    and p: "data_path (heap (snd (DataManager_call example_runtime)) 0) =
      ''data/robot_data.json''"
    and r: "fst (DataManager_call example_runtime) = Return 0"
    unfolding DataManager_call_fresh [OF i m c f]
    by (simp_all add: load_current_from_disk_eq load_historical_from_disk_eq print_def
        example_runtime_def example_world_def)
  have l: "length (historical_data
     (heap (update_data_at 2 0 (snd (DataManager_call example_runtime))) 0)) = 3"
    by (simp add: update_data_at_def Let_def update_data_times_history h)
  have q: "data_path (heap (update_data_at 2 0 (snd (DataManager_call example_runtime))) 0) =
     ''data/robot_data.json''"
    by (simp add: update_data_at_def Let_def update_data_times_paths p)
  from DataManager_is_singleton [OF i] n i r l q show ?thesis
    by simp
qed

end
